theory Spec2Isabelle
  imports Main "HOL-Library.Word" "HOL-Library.Multiset"
begin

section \<open>The shader converter of gio: internal/cmd/convertshaders/main.go\<close>

text \<open>
  The program converts every file of the directory \<^verbatim>\<open>shaders\<close> into two variants of three
  backend texts with the external tool \<^verbatim>\<open>glslcc\<close>, parses the reflection document of the
  first conversion, optionally compiles the HLSL text with \<^verbatim>\<open>fxc\<close>, and writes one Go
  source file. This theory embeds \<^verbatim>\<open>parseDataType\<close>, \<^verbatim>\<open>parseReflection\<close> and \<^verbatim>\<open>generate\<close>.

  Go's \<^verbatim>\<open>int\<close> is the 64-bit two's complement integer of the 64-bit targets: addition wraps
  and \<^verbatim>\<open><\<close> is the signed comparison. Go's \<^verbatim>\<open>string\<close> and \<^verbatim>\<open>[]byte\<close> are byte sequences.
\<close>

type_synonym go_int = "64 word"
type_synonym bytes = "8 word list"

subsection \<open>Errors\<close>

text \<open>
  Every error of the program is made by \<^verbatim>\<open>fmt.Errorf\<close> or comes out of a library call; the
  program only ever reads its message (the verb \<^verbatim>\<open>%v\<close>). An error is its message.
\<close>

datatype error = GoError (Error: string)

subsection \<open>The types of package gioui.org/gpu/backend that the program fills\<close>

datatype DataType = DataTypeFloat | DataTypeInt

record InputLocation =
  il_Name :: string
  il_Location :: go_int
  il_Semantic :: string
  il_SemanticIndex :: go_int
  il_Type :: DataType
  il_Size :: go_int

record UniformBlock =
  ub_Name :: string
  ub_Binding :: go_int

record UniformLocation =
  ul_Name :: string
  ul_Type :: DataType
  ul_Size :: go_int
  ul_Offset :: go_int

record UniformsReflection =
  ur_Blocks :: "UniformBlock list"
  ur_Locations :: "UniformLocation list"
  ur_Size :: go_int

record TextureBinding =
  tb_Name :: string
  tb_Binding :: go_int

text \<open>
  \<^verbatim>\<open>HLSL\<close> is a \<^verbatim>\<open>[]byte\<close> whose zero value \<^verbatim>\<open>nil\<close> stands for "no bytecode": \<open>None\<close> is
  \<^verbatim>\<open>nil\<close>, \<open>Some bs\<close> a slice read from the compiler's output file.
\<close>

record ShaderSources =
  GLSL100ES :: string
  GLSL300ES :: string
  HLSL :: "bytes option"
  Uniforms :: UniformsReflection
  Inputs :: "InputLocation list"
  Textures :: "TextureBinding list"

text \<open>The zero value of \<^verbatim>\<open>backend.ShaderSources\<close>, as \<^verbatim>\<open>var variants [nvariants]struct{...}\<close> makes it.\<close>

definition ShaderSources_zero :: ShaderSources where
  "ShaderSources_zero =
     \<lparr>GLSL100ES = [], GLSL300ES = [], HLSL = None,
      Uniforms = \<lparr>ur_Blocks = [], ur_Locations = [], ur_Size = 0\<rparr>,
      Inputs = [], Textures = []\<rparr>"

subsection \<open>The types local to parseReflection\<close>

record InputReflection =
  ir_ID :: go_int
  ir_Name :: string
  ir_Location :: go_int
  ir_Semantic :: string
  ir_SemanticIndex :: go_int
  ir_Type :: string

record UniformMemberReflection =
  um_Name :: string
  um_Type :: string
  um_Offset :: go_int
  um_Size :: go_int

record UniformBufferReflection =
  ubr_ID :: go_int
  ubr_Name :: string
  ubr_Set :: go_int
  ubr_Binding :: go_int
  ubr_Size :: go_int
  ubr_Members :: "UniformMemberReflection list"

record TextureReflection =
  tr_ID :: go_int
  tr_Name :: string
  tr_Set :: go_int
  tr_Binding :: go_int
  tr_Dimension :: string
  tr_Format :: string

record shaderReflection =
  sr_Inputs :: "InputReflection list"
  sr_UniformBuffers :: "UniformBufferReflection list"
  sr_Textures :: "TextureReflection list"

record shaderMetadata =
  VS :: shaderReflection
  FS :: shaderReflection

subsection \<open>parseDataType\<close>

definition parseDataType :: "string \<Rightarrow> error + (DataType \<times> go_int)" where
  "parseDataType t =
     (if t = ''float'' then Inr (DataTypeFloat, 1)
      else if t = ''float2'' then Inr (DataTypeFloat, 2)
      else if t = ''float3'' then Inr (DataTypeFloat, 3)
      else if t = ''float4'' then Inr (DataTypeFloat, 4)
      else if t = ''int'' then Inr (DataTypeInt, 1)
      else if t = ''int2'' then Inr (DataTypeInt, 2)
      else if t = ''int3'' then Inr (DataTypeInt, 3)
      else if t = ''int4'' then Inr (DataTypeInt, 4)
      else Inl (GoError (''unsupported input data type: '' @ t)))"

subsection \<open>The verb %d of fmt.Sprintf on an int\<close>

fun digits :: "nat \<Rightarrow> string" where
  "digits n =
     (if n < 10 then [char_of (48 + n)]
      else digits (n div 10) @ [char_of (48 + n mod 10)])"

declare digits.simps [simp del]

definition fmt_d :: "go_int \<Rightarrow> string" where
  "fmt_d x = (if sint x < 0 then CHR ''-'' # digits (nat (- sint x)) else digits (nat (sint x)))"

subsection \<open>parseReflection\<close>

text \<open>
  \<^verbatim>\<open>for _, input := range inputRef\<close>: every vertex input is type-mapped and appended to
  \<^verbatim>\<open>info.Inputs\<close>; the first unmapped type returns the wrapped error.
\<close>

fun inputsLoop :: "InputReflection list \<Rightarrow> ShaderSources \<Rightarrow> error + ShaderSources" where
  "inputsLoop [] info = Inr info"
| "inputsLoop (input # rest) info =
     (case parseDataType (ir_Type input) of
        Inl err \<Rightarrow> Inl (GoError (''parseReflection: '' @ Error err))
      | Inr (dataType, dataSize) \<Rightarrow>
          inputsLoop rest
            (info\<lparr>Inputs := Inputs info @
               [\<lparr>il_Name = ir_Name input,
                 il_Location = ir_Location input,
                 il_Semantic = ir_Semantic input,
                 il_SemanticIndex = ir_SemanticIndex input,
                 il_Type = dataType,
                 il_Size = dataSize\<rparr>]\<rparr>))"

text \<open>\<^verbatim>\<open>for _, member := range block.Members\<close>, inside block \<open>block\<close> at offset \<open>blockOffset\<close>.\<close>

fun membersLoop ::
  "UniformBufferReflection \<Rightarrow> go_int \<Rightarrow> UniformMemberReflection list \<Rightarrow> ShaderSources \<Rightarrow>
   error + ShaderSources" where
  "membersLoop block blockOffset [] info = Inr info"
| "membersLoop block blockOffset (member # rest) info =
     (case parseDataType (um_Type member) of
        Inl err \<Rightarrow> Inl (GoError (''parseReflection: '' @ Error err))
      | Inr (dataType, sz) \<Rightarrow>
          membersLoop block blockOffset rest
            (info\<lparr>Uniforms := (Uniforms info)\<lparr>ur_Locations := ur_Locations (Uniforms info) @
               [\<lparr>ul_Name = ''_'' @ fmt_d (ubr_ID block) @ ''.'' @ um_Name member,
                 ul_Type = dataType,
                 ul_Size = sz,
                 ul_Offset = blockOffset + um_Offset member\<rparr>]\<rparr>\<rparr>))"

text \<open>
  \<^verbatim>\<open>for _, block := range shaderBlocks\<close>: the state is \<^verbatim>\<open>info\<close> and the running
  \<^verbatim>\<open>blockOffset\<close>; the loop returns both.
\<close>

fun blocksLoop ::
  "UniformBufferReflection list \<Rightarrow> go_int \<Rightarrow> ShaderSources \<Rightarrow> error + (ShaderSources \<times> go_int)" where
  "blocksLoop [] blockOffset info = Inr (info, blockOffset)"
| "blocksLoop (block # rest) blockOffset info =
     (case membersLoop block blockOffset (ubr_Members block)
             (info\<lparr>Uniforms := (Uniforms info)\<lparr>ur_Blocks := ur_Blocks (Uniforms info) @
                [\<lparr>ub_Name = ubr_Name block, ub_Binding = ubr_Binding block\<rparr>]\<rparr>\<rparr>) of
        Inl err \<Rightarrow> Inl err
      | Inr info' \<Rightarrow> blocksLoop rest (blockOffset + ubr_Size block) info')"

text \<open>\<^verbatim>\<open>for _, texture := range textures\<close>.\<close>

fun texturesLoop :: "TextureReflection list \<Rightarrow> ShaderSources \<Rightarrow> ShaderSources" where
  "texturesLoop [] info = info"
| "texturesLoop (texture # rest) info =
     texturesLoop rest
       (info\<lparr>Textures := Textures info @
          [\<lparr>tb_Name = tr_Name texture, tb_Binding = tr_Binding texture\<rparr>]\<rparr>)"

text \<open>The comparison handed to \<^verbatim>\<open>sort.Slice\<close>: \<^verbatim>\<open>info.Inputs[i].Location < info.Inputs[j].Location\<close>.\<close>

definition lessLocation :: "InputLocation \<Rightarrow> InputLocation \<Rightarrow> bool" where
  "lessLocation a b \<longleftrightarrow> il_Location a <s il_Location b"

text \<open>
  \<^verbatim>\<open>json.Unmarshal\<close> and \<^verbatim>\<open>sort.Slice\<close> belong to Go's library, not to this repository:
  they are the parameters \<open>unmarshal\<close> (the decoded document, or the decoder's error) and
  \<open>srt\<close> (the slice after sorting with the given comparison). The function returns the
  record that \<^verbatim>\<open>info\<close> points to after the call; on an error the caller drops the record.
\<close>

definition parseReflection ::
  "(bytes \<Rightarrow> error + shaderMetadata) \<Rightarrow>
   ((InputLocation \<Rightarrow> InputLocation \<Rightarrow> bool) \<Rightarrow> InputLocation list \<Rightarrow> InputLocation list) \<Rightarrow>
   bytes \<Rightarrow> ShaderSources \<Rightarrow> error + ShaderSources" where
  "parseReflection unmarshal srt jsonData info =
     (case unmarshal jsonData of
        Inl err \<Rightarrow> Inl (GoError (''parseReflection: '' @ Error err))
      | Inr reflect \<Rightarrow>
          (case inputsLoop (sr_Inputs (VS reflect)) info of
             Inl err \<Rightarrow> Inl err
           | Inr info1 \<Rightarrow>
               (let info2 = info1\<lparr>Inputs := srt lessLocation (Inputs info1)\<rparr>;
                    shaderBlocks = sr_UniformBuffers (VS reflect);
                    shaderBlocks = (if length shaderBlocks = 0
                                    then sr_UniformBuffers (FS reflect) else shaderBlocks)
                in case blocksLoop shaderBlocks 0 info2 of
                     Inl err \<Rightarrow> Inl err
                   | Inr (info3, blockOffset) \<Rightarrow>
                       (let info4 = info3\<lparr>Uniforms := (Uniforms info3)\<lparr>ur_Size := blockOffset\<rparr>\<rparr>;
                            textures = sr_Textures (VS reflect);
                            textures = (if length textures = 0
                                        then sr_Textures (FS reflect) else textures)
                        in Inr (texturesLoop textures info4)))))"


subsection \<open>filepath.Ext, filepath.Base and strings.ReplaceAll\<close>

text \<open>
  \<^verbatim>\<open>filepath.Ext\<close> scans the path from its end up to the last separator and returns the
  suffix that starts at the first dot it meets, or the empty string. \<open>extScan\<close> walks the
  reversed path and carries the suffix read so far.
\<close>

fun extScan :: "string \<Rightarrow> string \<Rightarrow> string" where
  "extScan [] suffix = []"
| "extScan (c # cs) suffix =
     (if c = CHR ''/'' then []
      else if c = CHR ''.'' then c # suffix
      else extScan cs (c # suffix))"

definition Ext :: "string \<Rightarrow> string" where
  "Ext path = extScan (rev path) []"

text \<open>
  \<^verbatim>\<open>filepath.Base\<close>: the last element of the path, after the trailing separators are
  removed; \<^verbatim>\<open>"."\<close> for the empty path and \<^verbatim>\<open>"/"\<close> for a path of separators only.
\<close>

definition Base :: "string \<Rightarrow> string" where
  "Base path =
     (if path = [] then ''.''
      else (let path = rev (dropWhile (\<lambda>c. c = CHR ''/'') (rev path));
                path = rev (takeWhile (\<lambda>c. c \<noteq> CHR ''/'') (rev path))
            in if path = [] then ''/'' else path))"

text \<open>\<^verbatim>\<open>strings.ReplaceAll(name, ".", "_")\<close>: the two strings are single bytes.\<close>

definition ReplaceAll_dot :: "string \<Rightarrow> string" where
  "ReplaceAll_dot name = map (\<lambda>c. if c = CHR ''.'' then CHR ''_'' else c) name"

subsection \<open>generate\<close>

record shaderArgs =
  FetchColorExpr :: string
  Header :: string

text \<open>The element type of \<^verbatim>\<open>variants\<close>: the embedded \<^verbatim>\<open>backend.ShaderSources\<close> and \<^verbatim>\<open>hlslSrc\<close>.\<close>

record variant =
  ShaderSources :: ShaderSources
  hlslSrc :: string

definition variant_zero :: variant where
  "variant_zero = \<lparr>ShaderSources = ShaderSources_zero, hlslSrc = []\<rparr>"

text \<open>
  What the emitting loop prints for one element of \<^verbatim>\<open>variants\<close>: a composite literal
  \<^verbatim>\<open>backend.ShaderSources{...}\<close> whose fields \<^verbatim>\<open>Inputs\<close>, \<^verbatim>\<open>Uniforms\<close> and \<^verbatim>\<open>Textures\<close> are
  printed only when non-empty (\<open>None\<close>: the field is not printed), followed by the two GLSL
  texts, the HLSL text inside a comment and the field \<^verbatim>\<open>HLSL\<close>.
\<close>

record SourcesLit =
  lit_Inputs :: "InputLocation list option"
  lit_Uniforms :: "UniformsReflection option"
  lit_Textures :: "TextureBinding list option"
  lit_GLSL100ES :: string
  lit_GLSL300ES :: string
  lit_comment :: string
  lit_HLSL :: "bytes option"

text \<open>
  What is printed for one shader file: \<^verbatim>\<open>shader_<name> = \<close>, then one literal, or the
  literals inside \<^verbatim>\<open>[...]backend.ShaderSources{ }\<close> when \<^verbatim>\<open>multiVariant\<close> holds.
\<close>

record ShaderEntry =
  se_name :: string
  se_multiVariant :: bool
  se_literals :: "SourcesLit list"

text \<open>
  The buffer \<^verbatim>\<open>out\<close>: the package clause and the entries of the \<^verbatim>\<open>var ( )\<close> block. The
  text that \<^verbatim>\<open>fmt.Fprintf\<close> renders from these values is left to the formatter below.
\<close>

record outbuf =
  ob_package :: string
  ob_entries :: "ShaderEntry list"

text \<open>
  The world outside the program. \<^verbatim>\<open>convertShader\<close> and \<^verbatim>\<open>compileHLSL\<close> run the external
  compilers on files of the temporary directory; they are taken as functions of their
  arguments, like the library calls \<^verbatim>\<open>ioutil.TempDir\<close>, \<^verbatim>\<open>exec.LookPath\<close>, \<^verbatim>\<open>filepath.Glob\<close>,
  \<^verbatim>\<open>json.Unmarshal\<close>, \<^verbatim>\<open>sort.Slice\<close>, \<^verbatim>\<open>format.Source\<close> (applied to the rendered buffer) and
  \<^verbatim>\<open>ioutil.WriteFile\<close>. \<^verbatim>\<open>LookPath\<close> returns its pair of a path and an error as Go does.
\<close>

record env =
  packageName :: string
  TempDir :: "error + string"
  LookPath :: "string \<Rightarrow> string \<times> error option"
  Glob :: "string \<Rightarrow> error + string list"
  convertShader ::
    "string \<Rightarrow> string \<Rightarrow> string \<Rightarrow> string \<Rightarrow> string \<Rightarrow> shaderArgs \<Rightarrow> bool \<Rightarrow>
     error + (string \<times> bytes)"
  compileHLSL :: "string \<Rightarrow> string \<Rightarrow> string \<Rightarrow> string \<Rightarrow> string \<Rightarrow> error + bytes option"
  Unmarshal :: "bytes \<Rightarrow> error + shaderMetadata"
  Slice ::
    "(InputLocation \<Rightarrow> InputLocation \<Rightarrow> bool) \<Rightarrow> InputLocation list \<Rightarrow> InputLocation list"
  Source :: "outbuf \<Rightarrow> error + bytes"
  WriteFile :: "string \<Rightarrow> bytes \<Rightarrow> error option"

text \<open>The array \<^verbatim>\<open>args\<close> of the two variants, in its declared order.\<close>

definition args :: "shaderArgs list" where
  "args =
     [\<lparr>FetchColorExpr = ''_color'',
       Header = ''layout(binding=0) uniform Color { vec4 _color; };''\<rparr>,
      \<lparr>FetchColorExpr = ''texture(tex, vUV)'',
       Header = ''layout(binding=0) uniform sampler2D tex;''\<rparr>]"

text \<open>The \<^verbatim>\<open>switch filepath.Ext(shader)\<close> that chooses \<^verbatim>\<open>hlslProf\<close>.\<close>

definition hlslProfOf :: "string \<Rightarrow> error + string" where
  "hlslProfOf shader =
     (if Ext shader = ''.frag'' then Inr ''ps''
      else if Ext shader = ''.vert'' then Inr ''vs''
      else Inl (GoError (''unrecognized shader type '' @ shader)))"

text \<open>
  The body of \<^verbatim>\<open>for i := range args\<close> for one variant: \<open>v\<close> is \<^verbatim>\<open>variants[i]\<close> before the
  body, the result is \<^verbatim>\<open>variants[i]\<close> after it, or the error that \<^verbatim>\<open>generate\<close> returns.
\<close>

definition variantBody ::
  "env \<Rightarrow> string \<Rightarrow> string \<Rightarrow> string \<Rightarrow> bool \<Rightarrow> string \<Rightarrow> shaderArgs \<Rightarrow> variant \<Rightarrow>
   error + variant" where
  "variantBody env tmp glslcc fxc fxcFound shader a v =
     (case convertShader env tmp glslcc shader ''gles'' ''100'' a False of
        Inl err \<Rightarrow> Inl err
      | Inr (glsl100, reflect) \<Rightarrow>
     (let glsl100 = ''#version 100'' @ [CHR 0x0A] @ glsl100 in
      case parseReflection (Unmarshal env) (Slice env) reflect (ShaderSources v) of
        Inl err \<Rightarrow> Inl err
      | Inr info \<Rightarrow>
     (case convertShader env tmp glslcc shader ''gles'' ''300'' a False of
        Inl err \<Rightarrow> Inl err
      | Inr (glsl300, _) \<Rightarrow>
     (case convertShader env tmp glslcc shader ''hlsl'' ''40'' a False of
        Inl err \<Rightarrow> Inl err
      | Inr (hlsl, _) \<Rightarrow>
     (case hlslProfOf shader of
        Inl err \<Rightarrow> Inl err
      | Inr hlslProf \<Rightarrow>
     (case (if fxcFound then compileHLSL env tmp fxc hlsl ''main'' (hlslProf @ ''_4_0'')
            else Inr None) of
        Inl err \<Rightarrow> Inl err
      | Inr hlslc \<Rightarrow>
          Inr (v\<lparr>ShaderSources :=
                   info\<lparr>GLSL100ES := glsl100, GLSL300ES := glsl300, HLSL := hlslc\<rparr>,
                 hlslSrc := hlsl\<rparr>)))))))"

text \<open>\<^verbatim>\<open>for i := range args\<close>: the elements of \<^verbatim>\<open>variants\<close> start as zero values.\<close>

fun variantsLoop ::
  "env \<Rightarrow> string \<Rightarrow> string \<Rightarrow> string \<Rightarrow> bool \<Rightarrow> string \<Rightarrow> shaderArgs list \<Rightarrow>
   error + variant list" where
  "variantsLoop env tmp glslcc fxc fxcFound shader [] = Inr []"
| "variantsLoop env tmp glslcc fxc fxcFound shader (a # rest) =
     (case variantBody env tmp glslcc fxc fxcFound shader a variant_zero of
        Inl err \<Rightarrow> Inl err
      | Inr v \<Rightarrow>
          (case variantsLoop env tmp glslcc fxc fxcFound shader rest of
             Inl err \<Rightarrow> Inl err
           | Inr vs \<Rightarrow> Inr (v # vs)))"

definition sourcesLit :: "variant \<Rightarrow> SourcesLit" where
  "sourcesLit src =
     \<lparr>lit_Inputs =
        (if length (Inputs (ShaderSources src)) > 0 then Some (Inputs (ShaderSources src))
         else None),
      lit_Uniforms =
        (let u = Uniforms (ShaderSources src)
         in if length (ur_Blocks u) > 0 then Some u else None),
      lit_Textures =
        (if length (Textures (ShaderSources src)) > 0 then Some (Textures (ShaderSources src))
         else None),
      lit_GLSL100ES = GLSL100ES (ShaderSources src),
      lit_GLSL300ES = GLSL300ES (ShaderSources src),
      lit_comment = hlslSrc src,
      lit_HLSL = HLSL (ShaderSources src)\<rparr>"

text \<open>\<^verbatim>\<open>for _, src := range variants\<close>, which breaks after the first element unless \<^verbatim>\<open>multiVariant\<close>.\<close>

fun emitLoop :: "bool \<Rightarrow> variant list \<Rightarrow> SourcesLit list" where
  "emitLoop multiVariant [] = []"
| "emitLoop multiVariant (src # rest) =
     sourcesLit src # (if \<not> multiVariant then [] else emitLoop multiVariant rest)"

text \<open>The body of \<^verbatim>\<open>for _, shader := range shaders\<close>: what it appends to \<^verbatim>\<open>out\<close>.\<close>

definition shaderBody ::
  "env \<Rightarrow> string \<Rightarrow> string \<Rightarrow> string \<Rightarrow> bool \<Rightarrow> string \<Rightarrow> error + ShaderEntry" where
  "shaderBody env tmp glslcc fxc fxcFound shader =
     (case variantsLoop env tmp glslcc fxc fxcFound shader args of
        Inl err \<Rightarrow> Inl err
      | Inr variants \<Rightarrow>
          (let name = ReplaceAll_dot (Base shader);
               multiVariant =
                 (GLSL100ES (ShaderSources (variants ! 0)) \<noteq>
                  GLSL100ES (ShaderSources (variants ! 1)))
           in Inr \<lparr>se_name = name, se_multiVariant = multiVariant,
                   se_literals = emitLoop multiVariant variants\<rparr>))"

fun shadersLoop ::
  "env \<Rightarrow> string \<Rightarrow> string \<Rightarrow> string \<Rightarrow> bool \<Rightarrow> string list \<Rightarrow> error + ShaderEntry list" where
  "shadersLoop env tmp glslcc fxc fxcFound [] = Inr []"
| "shadersLoop env tmp glslcc fxc fxcFound (shader # rest) =
     (case shaderBody env tmp glslcc fxc fxcFound shader of
        Inl err \<Rightarrow> Inl err
      | Inr entry \<Rightarrow>
          (case shadersLoop env tmp glslcc fxc fxcFound rest of
             Inl err \<Rightarrow> Inl err
           | Inr entries \<Rightarrow> Inr (entry # entries)))"

text \<open>
  \<^verbatim>\<open>generate\<close> up to \<^verbatim>\<open>out.WriteString(")")\<close>: the buffer \<^verbatim>\<open>out\<close>, or the error returned
  before that line.
\<close>

definition generate_out :: "env \<Rightarrow> error + outbuf" where
  "generate_out env =
     (case TempDir env of
        Inl err \<Rightarrow> Inl err
      | Inr tmp \<Rightarrow>
     (case LookPath env ''glslcc'' of
        (glslcc, Some err) \<Rightarrow> Inl err
      | (glslcc, None) \<Rightarrow>
     (case LookPath env ''fxc'' of
        (fxc, err) \<Rightarrow>
     (let fxcFound = (err = None) in
      case Glob env ''shaders/*'' of
        Inl err \<Rightarrow> Inl err
      | Inr shaders \<Rightarrow>
     (case shadersLoop env tmp glslcc fxc fxcFound shaders of
        Inl err \<Rightarrow> Inl err
      | Inr entries \<Rightarrow> Inr \<lparr>ob_package = packageName env, ob_entries = entries\<rparr>)))))"

text \<open>
  \<^verbatim>\<open>generate\<close>: the returned error (\<open>None\<close> is \<^verbatim>\<open>nil\<close>) and the calls of
  \<^verbatim>\<open>ioutil.WriteFile\<close> it made, each with the file name and the content. The temporary
  directory and its removal are not part of the state.
\<close>

definition generate :: "env \<Rightarrow> error option \<times> (string \<times> bytes) list" where
  "generate env =
     (case generate_out env of
        Inl err \<Rightarrow> (Some err, [])
      | Inr out \<Rightarrow>
          (case Source env out of
             Inl err \<Rightarrow> (Some (GoError (''shader.go: '' @ Error err)), [])
           | Inr gosrc \<Rightarrow> (WriteFile env ''shaders.go'' gosrc, [(''shaders.go'', gosrc)])))"

section \<open>Notions used to state the properties\<close>

subsection \<open>The entries that parseReflection makes\<close>

text \<open>
  The composite literals of the three loops, with the type and the size that
  \<^verbatim>\<open>parseDataType\<close> returns for the entry's type token.
\<close>

definition inputLocationOf :: "InputReflection \<Rightarrow> InputLocation" where
  "inputLocationOf input =
     \<lparr>il_Name = ir_Name input,
      il_Location = ir_Location input,
      il_Semantic = ir_Semantic input,
      il_SemanticIndex = ir_SemanticIndex input,
      il_Type = fst (projr (parseDataType (ir_Type input))),
      il_Size = snd (projr (parseDataType (ir_Type input)))\<rparr>"

definition uniformLocationOf ::
  "UniformBufferReflection \<Rightarrow> go_int \<Rightarrow> UniformMemberReflection \<Rightarrow> UniformLocation" where
  "uniformLocationOf block blockOffset member =
     \<lparr>ul_Name = ''_'' @ fmt_d (ubr_ID block) @ ''.'' @ um_Name member,
      ul_Type = fst (projr (parseDataType (um_Type member))),
      ul_Size = snd (projr (parseDataType (um_Type member))),
      ul_Offset = blockOffset + um_Offset member\<rparr>"

definition uniformBlockOf :: "UniformBufferReflection \<Rightarrow> UniformBlock" where
  "uniformBlockOf block = \<lparr>ub_Name = ubr_Name block, ub_Binding = ubr_Binding block\<rparr>"

definition textureBindingOf :: "TextureReflection \<Rightarrow> TextureBinding" where
  "textureBindingOf texture = \<lparr>tb_Name = tr_Name texture, tb_Binding = tr_Binding texture\<rparr>"

definition supported :: "string \<Rightarrow> bool" where
  "supported t \<longleftrightarrow> \<not> isl (parseDataType t)"

text \<open>The uniform locations of a list of blocks laid out from \<open>blockOffset\<close> on.\<close>

fun blockLocations :: "UniformBufferReflection list \<Rightarrow> go_int \<Rightarrow> UniformLocation list" where
  "blockLocations [] blockOffset = []"
| "blockLocations (block # rest) blockOffset =
     map (uniformLocationOf block blockOffset) (ubr_Members block) @
     blockLocations rest (blockOffset + ubr_Size block)"

text \<open>The values of the local variables \<^verbatim>\<open>shaderBlocks\<close> and \<^verbatim>\<open>textures\<close>.\<close>

definition shaderBlocksOf :: "shaderMetadata \<Rightarrow> UniformBufferReflection list" where
  "shaderBlocksOf reflect =
     (if sr_UniformBuffers (VS reflect) = [] then sr_UniformBuffers (FS reflect)
      else sr_UniformBuffers (VS reflect))"

definition texturesOf :: "shaderMetadata \<Rightarrow> TextureReflection list" where
  "texturesOf reflect =
     (if sr_Textures (VS reflect) = [] then sr_Textures (FS reflect) else sr_Textures (VS reflect))"

text \<open>A decoded document all of whose type tokens \<^verbatim>\<open>parseDataType\<close> maps.\<close>

definition wellTyped :: "shaderMetadata \<Rightarrow> bool" where
  "wellTyped reflect \<longleftrightarrow>
     list_all (\<lambda>i. supported (ir_Type i)) (sr_Inputs (VS reflect)) \<and>
     list_all (\<lambda>b. list_all (\<lambda>m. supported (um_Type m)) (ubr_Members b)) (shaderBlocksOf reflect)"

text \<open>The record after a successful call, in closed form.\<close>

definition parsed ::
  "((InputLocation \<Rightarrow> InputLocation \<Rightarrow> bool) \<Rightarrow> InputLocation list \<Rightarrow> InputLocation list) \<Rightarrow>
   shaderMetadata \<Rightarrow> ShaderSources \<Rightarrow> ShaderSources" where
  "parsed srt reflect info =
     info\<lparr>Inputs := srt lessLocation (Inputs info @ map inputLocationOf (sr_Inputs (VS reflect))),
          Uniforms :=
            \<lparr>ur_Blocks = ur_Blocks (Uniforms info) @ map uniformBlockOf (shaderBlocksOf reflect),
             ur_Locations = ur_Locations (Uniforms info) @ blockLocations (shaderBlocksOf reflect) 0,
             ur_Size = sum_list (map ubr_Size (shaderBlocksOf reflect))\<rparr>,
          Textures := Textures info @ map textureBindingOf (texturesOf reflect)\<rparr>"

subsection \<open>What sort.Slice guarantees\<close>

text \<open>
  \<^verbatim>\<open>sort.Slice\<close> permutes the slice so that no element is less than an earlier one; it is
  not stable, so nothing more is known about elements at the same location.
\<close>

definition sortsByLocation ::
  "((InputLocation \<Rightarrow> InputLocation \<Rightarrow> bool) \<Rightarrow> InputLocation list \<Rightarrow> InputLocation list) \<Rightarrow> bool" where
  "sortsByLocation srt \<longleftrightarrow>
     (\<forall>xs. mset (srt lessLocation xs) = mset xs \<and>
           sorted_wrt (\<lambda>a b. \<not> lessLocation b a) (srt lessLocation xs))"

text \<open>One such sort, the insertion sort that Go runs on short slices.\<close>

fun insertBy :: "('a \<Rightarrow> 'a \<Rightarrow> bool) \<Rightarrow> 'a \<Rightarrow> 'a list \<Rightarrow> 'a list" where
  "insertBy lt x [] = [x]"
| "insertBy lt x (y # ys) = (if lt x y then x # y # ys else y # insertBy lt x ys)"

definition insertionSort :: "('a \<Rightarrow> 'a \<Rightarrow> bool) \<Rightarrow> 'a list \<Rightarrow> 'a list" where
  "insertionSort lt xs = foldl (\<lambda>ys x. insertBy lt x ys) [] xs"

subsection \<open>Example documents and an example world\<close>

text \<open>
  A fragment shader's reflection: two vertex inputs listed out of order, no uniform block
  and no texture in the vertex stage, two blocks of 16 and 32 bytes and one texture in the
  fragment stage.
\<close>

definition example_inputs :: "InputReflection list" where
  "example_inputs =
     [\<lparr>ir_ID = 0, ir_Name = ''uv'', ir_Location = 1, ir_Semantic = ''TEXCOORD'',
       ir_SemanticIndex = 0, ir_Type = ''float2''\<rparr>,
      \<lparr>ir_ID = 1, ir_Name = ''pos'', ir_Location = 0, ir_Semantic = ''POSITION'',
       ir_SemanticIndex = 0, ir_Type = ''float4''\<rparr>]"

definition example_blocks :: "UniformBufferReflection list" where
  "example_blocks =
     [\<lparr>ubr_ID = 5, ubr_Name = ''Color'', ubr_Set = 0, ubr_Binding = 0, ubr_Size = 16,
       ubr_Members =
         [\<lparr>um_Name = ''_color'', um_Type = ''float4'', um_Offset = 0, um_Size = 16\<rparr>]\<rparr>,
      \<lparr>ubr_ID = 7, ubr_Name = ''Gradient'', ubr_Set = 0, ubr_Binding = 1, ubr_Size = 32,
       ubr_Members =
         [\<lparr>um_Name = ''_color1'', um_Type = ''float4'', um_Offset = 0, um_Size = 16\<rparr>,
          \<lparr>um_Name = ''_steps'', um_Type = ''int2'', um_Offset = 16, um_Size = 8\<rparr>]\<rparr>]"

definition example_textures :: "TextureReflection list" where
  "example_textures =
     [\<lparr>tr_ID = 9, tr_Name = ''tex'', tr_Set = 0, tr_Binding = 0, tr_Dimension = ''2d'',
       tr_Format = []\<rparr>]"

definition example_reflect :: shaderMetadata where
  "example_reflect =
     \<lparr>VS = \<lparr>sr_Inputs = example_inputs, sr_UniformBuffers = [], sr_Textures = []\<rparr>,
      FS = \<lparr>sr_Inputs = [], sr_UniformBuffers = example_blocks,
            sr_Textures = example_textures\<rparr>\<rparr>"

text \<open>The same lists the other way round: the vertex stage holds a block and the texture.\<close>

definition example_reflect_vs :: shaderMetadata where
  "example_reflect_vs =
     \<lparr>VS = \<lparr>sr_Inputs = example_inputs, sr_UniformBuffers = [hd example_blocks],
            sr_Textures = example_textures\<rparr>,
      FS = \<lparr>sr_Inputs = [], sr_UniformBuffers = example_blocks, sr_Textures = []\<rparr>\<rparr>"

text \<open>A document with an input of the unsupported type \<^verbatim>\<open>double\<close>.\<close>

definition example_reflect_double :: shaderMetadata where
  "example_reflect_double =
     \<lparr>VS = \<lparr>sr_Inputs =
              [\<lparr>ir_ID = 0, ir_Name = ''pos'', ir_Location = 0, ir_Semantic = ''POSITION'',
                ir_SemanticIndex = 0, ir_Type = ''double''\<rparr>],
            sr_UniformBuffers = [], sr_Textures = []\<rparr>,
      FS = \<lparr>sr_Inputs = [], sr_UniformBuffers = [], sr_Textures = []\<rparr>\<rparr>"

text \<open>A stand-in decoder: the first byte of the data selects the document.\<close>

definition example_unmarshal :: "bytes \<Rightarrow> error + shaderMetadata" where
  "example_unmarshal jsonData =
     (if jsonData = [] then Inl (GoError ''unexpected end of JSON input'')
      else if hd jsonData = 1 then Inr example_reflect_vs
      else if hd jsonData = 2 then Inr example_reflect_double
      else Inr example_reflect)"

text \<open>
  A world with one fragment shader and no \<^verbatim>\<open>fxc\<close>: the converter's text names the target
  and the variant's colour expression, its reflection data is the byte \<open>rbyte\<close>.
\<close>

definition example_env :: "8 word \<Rightarrow> env" where
  "example_env rbyte =
     \<lparr>packageName = ''gpu'',
      TempDir = Inr ''/tmp/shader-convert1'',
      LookPath = (\<lambda>file. if file = ''glslcc'' then (''/usr/bin/glslcc'', None)
                          else ([], Some (GoError ''executable file not found in $PATH''))),
      Glob = (\<lambda>pattern. Inr [''shaders/blit.frag'']),
      convertShader = (\<lambda>tmp glslcc path lang profile a flattenUBOs.
                         Inr (lang @ profile @ '' '' @ FetchColorExpr a, [rbyte])),
      compileHLSL = (\<lambda>tmp fxc src entry profile. Inl (GoError ''fxc failed'')),
      Unmarshal = example_unmarshal,
      Slice = insertionSort,
      Source = (\<lambda>out. Inr []),
      WriteFile = (\<lambda>name data. None)\<rparr>"

text \<open>The empty record after one call on the first example document, and after two.\<close>

definition example_once :: ShaderSources where
  "example_once =
     \<lparr>GLSL100ES = [], GLSL300ES = [], HLSL = None,
      Uniforms =
        \<lparr>ur_Blocks = [\<lparr>ub_Name = ''Color'', ub_Binding = 0\<rparr>,
                      \<lparr>ub_Name = ''Gradient'', ub_Binding = 1\<rparr>],
         ur_Locations =
           [\<lparr>ul_Name = ''_5._color'', ul_Type = DataTypeFloat, ul_Size = 4, ul_Offset = 0\<rparr>,
            \<lparr>ul_Name = ''_7._color1'', ul_Type = DataTypeFloat, ul_Size = 4, ul_Offset = 16\<rparr>,
            \<lparr>ul_Name = ''_7._steps'', ul_Type = DataTypeInt, ul_Size = 2, ul_Offset = 32\<rparr>],
         ur_Size = 48\<rparr>,
      Inputs =
        [\<lparr>il_Name = ''pos'', il_Location = 0, il_Semantic = ''POSITION'', il_SemanticIndex = 0,
          il_Type = DataTypeFloat, il_Size = 4\<rparr>,
         \<lparr>il_Name = ''uv'', il_Location = 1, il_Semantic = ''TEXCOORD'', il_SemanticIndex = 0,
          il_Type = DataTypeFloat, il_Size = 2\<rparr>],
      Textures = [\<lparr>tb_Name = ''tex'', tb_Binding = 0\<rparr>]\<rparr>"

definition example_twice :: ShaderSources where
  "example_twice =
     \<lparr>GLSL100ES = [], GLSL300ES = [], HLSL = None,
      Uniforms =
        \<lparr>ur_Blocks = [\<lparr>ub_Name = ''Color'', ub_Binding = 0\<rparr>,
                      \<lparr>ub_Name = ''Gradient'', ub_Binding = 1\<rparr>,
                      \<lparr>ub_Name = ''Color'', ub_Binding = 0\<rparr>,
                      \<lparr>ub_Name = ''Gradient'', ub_Binding = 1\<rparr>],
         ur_Locations =
           [\<lparr>ul_Name = ''_5._color'', ul_Type = DataTypeFloat, ul_Size = 4, ul_Offset = 0\<rparr>,
            \<lparr>ul_Name = ''_7._color1'', ul_Type = DataTypeFloat, ul_Size = 4, ul_Offset = 16\<rparr>,
            \<lparr>ul_Name = ''_7._steps'', ul_Type = DataTypeInt, ul_Size = 2, ul_Offset = 32\<rparr>,
            \<lparr>ul_Name = ''_5._color'', ul_Type = DataTypeFloat, ul_Size = 4, ul_Offset = 0\<rparr>,
            \<lparr>ul_Name = ''_7._color1'', ul_Type = DataTypeFloat, ul_Size = 4, ul_Offset = 16\<rparr>,
            \<lparr>ul_Name = ''_7._steps'', ul_Type = DataTypeInt, ul_Size = 2, ul_Offset = 32\<rparr>],
         ur_Size = 48\<rparr>,
      Inputs =
        [\<lparr>il_Name = ''pos'', il_Location = 0, il_Semantic = ''POSITION'', il_SemanticIndex = 0,
          il_Type = DataTypeFloat, il_Size = 4\<rparr>,
         \<lparr>il_Name = ''pos'', il_Location = 0, il_Semantic = ''POSITION'', il_SemanticIndex = 0,
          il_Type = DataTypeFloat, il_Size = 4\<rparr>,
         \<lparr>il_Name = ''uv'', il_Location = 1, il_Semantic = ''TEXCOORD'', il_SemanticIndex = 0,
          il_Type = DataTypeFloat, il_Size = 2\<rparr>,
         \<lparr>il_Name = ''uv'', il_Location = 1, il_Semantic = ''TEXCOORD'', il_SemanticIndex = 0,
          il_Type = DataTypeFloat, il_Size = 2\<rparr>],
      Textures = [\<lparr>tb_Name = ''tex'', tb_Binding = 0\<rparr>, \<lparr>tb_Name = ''tex'', tb_Binding = 0\<rparr>]\<rparr>"

subsection \<open>The calls that generate makes for one shader\<close>

text \<open>
  Inside the loops \<^verbatim>\<open>tmp\<close>, \<^verbatim>\<open>glslcc\<close>, \<^verbatim>\<open>fxc\<close> and \<^verbatim>\<open>fxcFound\<close> are what the first lines of
  \<^verbatim>\<open>generate\<close> made them. These are the conversion, the variant and the entry of a shader
  with those values.
\<close>

definition generate_convert ::
  "env \<Rightarrow> string \<Rightarrow> string \<Rightarrow> string \<Rightarrow> shaderArgs \<Rightarrow> error + (string \<times> bytes)" where
  "generate_convert env shader lang profile a =
     convertShader env (projr (TempDir env)) (fst (LookPath env ''glslcc'')) shader lang profile
       a False"

definition generate_variant :: "env \<Rightarrow> string \<Rightarrow> shaderArgs \<Rightarrow> error + variant" where
  "generate_variant env shader a =
     variantBody env (projr (TempDir env)) (fst (LookPath env ''glslcc''))
       (fst (LookPath env ''fxc'')) (snd (LookPath env ''fxc'') = None) shader a variant_zero"

definition generate_entry :: "env \<Rightarrow> string \<Rightarrow> error + ShaderEntry" where
  "generate_entry env shader =
     shaderBody env (projr (TempDir env)) (fst (LookPath env ''glslcc''))
       (fst (LookPath env ''fxc'')) (snd (LookPath env ''fxc'') = None) shader"

text \<open>The two variants by name.\<close>

definition uniformColorArgs :: shaderArgs where
  "uniformColorArgs =
     \<lparr>FetchColorExpr = ''_color'',
      Header = ''layout(binding=0) uniform Color { vec4 _color; };''\<rparr>"

definition texturedArgs :: shaderArgs where
  "texturedArgs =
     \<lparr>FetchColorExpr = ''texture(tex, vUV)'',
      Header = ''layout(binding=0) uniform sampler2D tex;''\<rparr>"



text \<open>The example world with a converter whose texts do not depend on the variant.\<close>

definition example_env_plain :: env where
  "example_env_plain =
     (example_env 0)\<lparr>convertShader :=
        (\<lambda>tmp glslcc path lang profile a flattenUBOs. Inr (lang @ profile, [0]))\<rparr>"

text \<open>The first example document with its vertex inputs in the opposite order.\<close>

definition example_reflect_rev :: shaderMetadata where
  "example_reflect_rev =
     example_reflect\<lparr>VS := (VS example_reflect)\<lparr>sr_Inputs := rev (sr_Inputs (VS example_reflect))\<rparr>\<rparr>"

section \<open>The loops of parseReflection in closed form\<close>

lemma inputsLoop_supported:
  "list_all (\<lambda>i. supported (ir_Type i)) ins \<Longrightarrow>
   inputsLoop ins info = Inr (info\<lparr>Inputs := Inputs info @ map inputLocationOf ins\<rparr>)"
proof (induction ins arbitrary: info)
  case Nil
  show ?case by simp
next
  case (Cons i ins)
  from Cons.prems obtain p where p: "parseDataType (ir_Type i) = Inr p"
    by (cases "parseDataType (ir_Type i)") (auto simp: supported_def)
  from Cons.prems have rest: "list_all (\<lambda>i. supported (ir_Type i)) ins" by simp
  show ?case
    using p by (cases p) (simp add: Cons.IH [OF rest] inputLocationOf_def)
qed

lemma inputsLoop_unsupported:
  "\<not> list_all (\<lambda>i. supported (ir_Type i)) ins \<Longrightarrow> \<exists>e. inputsLoop ins info = Inl e"
proof (induction ins arbitrary: info)
  case Nil
  then show ?case by simp
next
  case (Cons i ins)
  show ?case
  proof (cases "parseDataType (ir_Type i)")
    case (Inl e)
    then show ?thesis by simp
  next
    case (Inr p)
    with Cons.prems have "\<not> list_all (\<lambda>i. supported (ir_Type i)) ins"
      by (simp add: supported_def)
    from Cons.IH [OF this] Inr show ?thesis by (cases p) simp
  qed
qed

lemma membersLoop_supported:
  "list_all (\<lambda>m. supported (um_Type m)) ms \<Longrightarrow>
   membersLoop block blockOffset ms info =
     Inr (info\<lparr>Uniforms := (Uniforms info)\<lparr>ur_Locations := ur_Locations (Uniforms info) @
            map (uniformLocationOf block blockOffset) ms\<rparr>\<rparr>)"
proof (induction ms arbitrary: info)
  case Nil
  show ?case by simp
next
  case (Cons m ms)
  from Cons.prems obtain p where p: "parseDataType (um_Type m) = Inr p"
    by (cases "parseDataType (um_Type m)") (auto simp: supported_def)
  from Cons.prems have rest: "list_all (\<lambda>m. supported (um_Type m)) ms" by simp
  show ?case
    using p by (cases p) (simp add: Cons.IH [OF rest] uniformLocationOf_def)
qed

lemma membersLoop_unsupported:
  "\<not> list_all (\<lambda>m. supported (um_Type m)) ms \<Longrightarrow>
   \<exists>e. membersLoop block blockOffset ms info = Inl e"
proof (induction ms arbitrary: info)
  case Nil
  then show ?case by simp
next
  case (Cons m ms)
  show ?case
  proof (cases "parseDataType (um_Type m)")
    case (Inl e)
    then show ?thesis by simp
  next
    case (Inr p)
    with Cons.prems have "\<not> list_all (\<lambda>m. supported (um_Type m)) ms"
      by (simp add: supported_def)
    from Cons.IH [OF this] Inr show ?thesis by (cases p) simp
  qed
qed

lemma blocksLoop_supported:
  "list_all (\<lambda>b. list_all (\<lambda>m. supported (um_Type m)) (ubr_Members b)) bs \<Longrightarrow>
   blocksLoop bs blockOffset info =
     Inr (info\<lparr>Uniforms := (Uniforms info)\<lparr>
            ur_Blocks := ur_Blocks (Uniforms info) @ map uniformBlockOf bs,
            ur_Locations := ur_Locations (Uniforms info) @ blockLocations bs blockOffset\<rparr>\<rparr>,
          blockOffset + sum_list (map ubr_Size bs))"
proof (induction bs arbitrary: info blockOffset)
  case Nil
  show ?case by simp
next
  case (Cons b bs)
  from Cons.prems have b: "list_all (\<lambda>m. supported (um_Type m)) (ubr_Members b)"
    and rest: "list_all (\<lambda>b. list_all (\<lambda>m. supported (um_Type m)) (ubr_Members b)) bs"
    by simp_all
  show ?case
    by (simp add: membersLoop_supported [OF b] Cons.IH [OF rest] uniformBlockOf_def add.assoc)
qed

lemma blocksLoop_unsupported:
  "\<not> list_all (\<lambda>b. list_all (\<lambda>m. supported (um_Type m)) (ubr_Members b)) bs \<Longrightarrow>
   \<exists>e. blocksLoop bs blockOffset info = Inl e"
proof (induction bs arbitrary: info blockOffset)
  case Nil
  then show ?case by simp
next
  case (Cons b bs)
  show ?case
  proof (cases "list_all (\<lambda>m. supported (um_Type m)) (ubr_Members b)")
    case False
    from membersLoop_unsupported [OF this]
    obtain e where "membersLoop b blockOffset (ubr_Members b)
        (info\<lparr>Uniforms := (Uniforms info)\<lparr>ur_Blocks := ur_Blocks (Uniforms info) @
           [\<lparr>ub_Name = ubr_Name b, ub_Binding = ubr_Binding b\<rparr>]\<rparr>\<rparr>) = Inl e"
      by blast
    then show ?thesis by simp
  next
    case True
    with Cons.prems
    have "\<not> list_all (\<lambda>b. list_all (\<lambda>m. supported (um_Type m)) (ubr_Members b)) bs" by simp
    from Cons.IH [OF this] show ?thesis
      by (simp add: membersLoop_supported [OF True])
  qed
qed

lemma texturesLoop_eq:
  "texturesLoop ts info = info\<lparr>Textures := Textures info @ map textureBindingOf ts\<rparr>"
  by (induction ts arbitrary: info) (simp_all add: textureBindingOf_def)

lemma blockLocations_index:
  "blockLocations bs off =
     concat (map (\<lambda>k. map (uniformLocationOf (bs ! k) (off + sum_list (map ubr_Size (take k bs))))
                         (ubr_Members (bs ! k))) [0..<length bs])"
proof (induction bs arbitrary: off)
  case Nil
  show ?case by simp
next
  case (Cons b bs)
  have "[0..<length (b # bs)] = 0 # map Suc [0..<length bs]"
    by (simp add: upt_conv_Cons map_Suc_upt del: upt_Suc)
  then show ?case
    by (simp add: Cons.IH comp_def add.assoc del: upt_Suc)
qed

lemma parseReflection_decoded:
  "parseReflection unmarshal srt jsonData info =
     (case unmarshal jsonData of
        Inl err \<Rightarrow> Inl (GoError (''parseReflection: '' @ Error err))
      | Inr reflect \<Rightarrow>
     (case inputsLoop (sr_Inputs (VS reflect)) info of
        Inl err \<Rightarrow> Inl err
      | Inr info1 \<Rightarrow>
          (case blocksLoop (shaderBlocksOf reflect) 0
                  (info1\<lparr>Inputs := srt lessLocation (Inputs info1)\<rparr>) of
             Inl err \<Rightarrow> Inl err
           | Inr (info3, blockOffset) \<Rightarrow>
               Inr (texturesLoop (texturesOf reflect)
                      (info3\<lparr>Uniforms := (Uniforms info3)\<lparr>ur_Size := blockOffset\<rparr>\<rparr>)))))"
  by (simp add: parseReflection_def shaderBlocksOf_def texturesOf_def Let_def
      split: sum.splits)

lemma parseReflection_wellTyped:
  assumes "unmarshal jsonData = Inr reflect" and "wellTyped reflect"
  shows "parseReflection unmarshal srt jsonData info = Inr (parsed srt reflect info)"
proof -
  from assms(2) have ins: "list_all (\<lambda>i. supported (ir_Type i)) (sr_Inputs (VS reflect))"
    and bs: "list_all (\<lambda>b. list_all (\<lambda>m. supported (um_Type m)) (ubr_Members b))
               (shaderBlocksOf reflect)"
    by (simp_all add: wellTyped_def)
  show ?thesis
    by (simp add: parseReflection_decoded assms(1) inputsLoop_supported [OF ins]
        blocksLoop_supported [OF bs] texturesLoop_eq parsed_def)
qed

lemma parseReflection_illTyped:
  assumes "unmarshal jsonData = Inr reflect" and "\<not> wellTyped reflect"
  shows "\<exists>e. parseReflection unmarshal srt jsonData info = Inl e"
proof (cases "list_all (\<lambda>i. supported (ir_Type i)) (sr_Inputs (VS reflect))")
  case False
  from inputsLoop_unsupported [OF this] obtain e
    where "inputsLoop (sr_Inputs (VS reflect)) info = Inl e" by blast
  then show ?thesis by (simp add: parseReflection_decoded assms(1))
next
  case True
  with assms(2)
  have bs: "\<not> list_all (\<lambda>b. list_all (\<lambda>m. supported (um_Type m)) (ubr_Members b))
               (shaderBlocksOf reflect)"
    by (simp add: wellTyped_def)
  from blocksLoop_unsupported [OF bs] obtain e where
    "blocksLoop (shaderBlocksOf reflect) 0
       (info\<lparr>Inputs := srt lessLocation (Inputs info @ map inputLocationOf (sr_Inputs (VS reflect)))\<rparr>)
     = Inl e" by blast
  then show ?thesis
    by (simp add: parseReflection_decoded assms(1) inputsLoop_supported [OF True])
qed

lemma parseReflection_undecoded:
  "unmarshal jsonData = Inl err \<Longrightarrow>
   parseReflection unmarshal srt jsonData info = Inl (GoError (''parseReflection: '' @ Error err))"
  by (simp add: parseReflection_def)

lemma parseReflection_Inr:
  assumes "parseReflection unmarshal srt jsonData info = Inr out"
  obtains reflect where "unmarshal jsonData = Inr reflect" and "wellTyped reflect"
    and "out = parsed srt reflect info"
proof (cases "unmarshal jsonData")
  case (Inl err)
  with assms show ?thesis by (simp add: parseReflection_def)
next
  case (Inr reflect)
  show ?thesis
  proof (cases "wellTyped reflect")
    case True
    from parseReflection_wellTyped [of unmarshal jsonData reflect srt info] assms that Inr True
    show ?thesis by simp
  next
    case False
    from parseReflection_illTyped [of unmarshal jsonData reflect srt info] assms Inr False
    show ?thesis by auto
  qed
qed

lemma mset_insertBy: "mset (insertBy lt x xs) = add_mset x (mset xs)"
  by (induction xs) simp_all

lemma mset_foldl_insertBy:
  "mset (foldl (\<lambda>ys x. insertBy lt x ys) acc xs) = mset acc + mset xs"
  by (induction xs arbitrary: acc) (simp_all add: mset_insertBy)

lemma set_insertBy: "set (insertBy lt x xs) = insert x (set xs)"
  by (induction xs) auto

lemma sorted_insertBy_location:
  "sorted_wrt (\<lambda>a b. \<not> lessLocation b a) xs \<Longrightarrow>
   sorted_wrt (\<lambda>a b. \<not> lessLocation b a) (insertBy lessLocation x xs)"
proof (induction xs)
  case Nil
  show ?case by simp
next
  case (Cons y ys)
  show ?case
  proof (cases "lessLocation x y")
    case True
    have "\<not> lessLocation z x" if "z \<in> set (y # ys)" for z
    proof -
      from that Cons.prems have "\<not> lessLocation z y" 
        by (auto simp: lessLocation_def)
      with True show ?thesis
        by (auto simp: lessLocation_def word_sless_alt word_sle_eq)
    qed
    with True Cons.prems show ?thesis by simp
  next
    case False
    with Cons show ?thesis by (auto simp: set_insertBy)
  qed
qed

lemma sorted_foldl_insertBy_location:
  "sorted_wrt (\<lambda>a b. \<not> lessLocation b a) acc \<Longrightarrow>
   sorted_wrt (\<lambda>a b. \<not> lessLocation b a)
     (foldl (\<lambda>ys x. insertBy lessLocation x ys) acc xs)"
  by (induction xs arbitrary: acc) (simp_all add: sorted_insertBy_location)

lemma sortsByLocation_insertionSort: "sortsByLocation insertionSort"
  by (simp add: sortsByLocation_def insertionSort_def mset_foldl_insertBy
      sorted_foldl_insertBy_location)

lemma sorted_wrt_distinct_key:
  "sorted_wrt P xs \<Longrightarrow> distinct (map f xs) \<Longrightarrow> sorted_wrt (\<lambda>a b. P a b \<and> f a \<noteq> f b) xs"
  by (induction xs) auto

lemma strictly_sorted_locations:
  assumes "sorted_wrt (\<lambda>a b. \<not> lessLocation b a) xs" and "distinct (map il_Location xs)"
  shows "sorted_wrt (\<lambda>a b. il_Location a <s il_Location b) xs"
proof -
  from sorted_wrt_distinct_key [OF assms]
  have "sorted_wrt (\<lambda>a b. \<not> lessLocation b a \<and> il_Location a \<noteq> il_Location b) xs" .
  then show ?thesis
    by (rule sorted_wrt_mono_rel [rotated])
      (auto simp: lessLocation_def signed.not_less signed.le_less)
qed

lemma strictly_sorted_locations_unique:
  assumes "sorted_wrt (\<lambda>a b. il_Location a <s il_Location b) xs"
    and "sorted_wrt (\<lambda>a b. il_Location a <s il_Location b) ys"
    and "mset xs = mset ys"
  shows "xs = ys"
proof -
  let ?f = "\<lambda>x. sint (il_Location x)"
  have strict: "sorted_wrt (<) (map ?f zs)"
    if "sorted_wrt (\<lambda>a b. il_Location a <s il_Location b) zs" for zs
    using that by (simp add: sorted_wrt_map word_sless_alt)
  from strict [OF assms(1)] have sx: "sorted (map ?f xs)" and dx: "distinct (map ?f xs)"
    by (simp_all add: strict_sorted_iff)
  from strict [OF assms(2)] have sy: "sorted (map ?f ys)" and dy: "distinct (map ?f ys)"
    by (simp_all add: strict_sorted_iff)
  from assms(3) have set: "set xs = set ys" by (rule mset_eq_setD)
  from dx have "inj_on ?f (set xs)" by (simp add: distinct_map)
  with set have "inj_on ?f (set xs \<union> set ys)" by simp
  from this sx dx sy dy set show ?thesis by (rule map_sorted_distinct_set_unique)
qed

lemma il_Location_inputLocationOf [simp]: "il_Location (inputLocationOf i) = ir_Location i"
  by (simp add: inputLocationOf_def)

lemma example_parse:
  "parseReflection example_unmarshal insertionSort [0] ShaderSources_zero =
     Inr (parsed insertionSort example_reflect ShaderSources_zero)"
  by (rule parseReflection_wellTyped)
    (simp_all add: example_unmarshal_def wellTyped_def supported_def parseDataType_def
      example_reflect_def example_inputs_def example_blocks_def shaderBlocksOf_def)

lemma example_parsed_Inputs:
  "map il_Location (Inputs (parsed insertionSort example_reflect ShaderSources_zero)) = [0, 1]"
  by (simp add: parsed_def ShaderSources_zero_def example_reflect_def example_inputs_def
      insertionSort_def lessLocation_def word_sless_alt)

text \<open>
  C4. \<^verbatim>\<open>parseDataType\<close> maps the eight tokens float, float2, float3, float4, int, int2, int3
  and int4 to the kind Float or Int and the component count of the suffix (1 without a
  suffix), and returns the error "unsupported input data type" for every other token.
\<close>

theorem parseDataType_table:
  "parseDataType ''float'' = Inr (DataTypeFloat, 1) \<and>
   parseDataType ''float2'' = Inr (DataTypeFloat, 2) \<and>
   parseDataType ''float3'' = Inr (DataTypeFloat, 3) \<and>
   parseDataType ''float4'' = Inr (DataTypeFloat, 4) \<and>
   parseDataType ''int'' = Inr (DataTypeInt, 1) \<and>
   parseDataType ''int2'' = Inr (DataTypeInt, 2) \<and>
   parseDataType ''int3'' = Inr (DataTypeInt, 3) \<and>
   parseDataType ''int4'' = Inr (DataTypeInt, 4) \<and>
   (t \<notin> {''float'', ''float2'', ''float3'', ''float4'', ''int'', ''int2'', ''int3'', ''int4''} \<longrightarrow>
      parseDataType t = Inl (GoError (''unsupported input data type: '' @ t)))"
  by (simp add: parseDataType_def)

theorem parseDataType_table_witness:
  "''double'' \<notin> {''float'', ''float2'', ''float3'', ''float4'', ''int'', ''int2'', ''int3'', ''int4''} \<and>
   parseDataType ''double'' = Inl (GoError ''unsupported input data type: double'') \<and>
   parseDataType ''float3'' = Inr (DataTypeFloat, 3)"
  using parseDataType_table [of "''double''"] by simp

text \<open>
  C3. When the locations of the record's inputs and of the document's vertex inputs are
  pairwise distinct (for the empty record of \<^verbatim>\<open>generate\<close>: when the document's are), the
  inputs after a successful call are strictly ascending by location, in the signed order of
  Go's \<^verbatim>\<open>int\<close>, and hold exactly those locations. The order of the document does not
  matter: a document with the same vertex inputs in another order gives the same sequence.
\<close>

theorem parseReflection_inputs_sorted:
  assumes "sortsByLocation srt"
    and "unmarshal jsonData = Inr reflect"
    and "distinct (map il_Location (Inputs info) @ map ir_Location (sr_Inputs (VS reflect)))"
    and "parseReflection unmarshal srt jsonData info = Inr out"
  shows "sorted_wrt (\<lambda>a b. il_Location a <s il_Location b) (Inputs out) \<and>
         mset (map il_Location (Inputs out)) =
           mset (map il_Location (Inputs info)) + mset (map ir_Location (sr_Inputs (VS reflect))) \<and>
         (unmarshal' jsonData' = Inr reflect' \<longrightarrow>
          mset (sr_Inputs (VS reflect')) = mset (sr_Inputs (VS reflect)) \<longrightarrow>
          parseReflection unmarshal' srt jsonData' info = Inr out' \<longrightarrow>
            Inputs out' = Inputs out)"
proof -
  have sorted: "sorted_wrt (\<lambda>a b. il_Location a <s il_Location b) (Inputs o1) \<and>
      mset (Inputs o1) = mset (Inputs info) + mset (map inputLocationOf (sr_Inputs (VS r1)))"
    if u: "um j = Inr r1" and p: "parseReflection um srt j info = Inr o1"
      and d: "distinct (map il_Location (Inputs info) @ map ir_Location (sr_Inputs (VS r1)))"
    for um j r1 o1
  proof -
    let ?all = "Inputs info @ map inputLocationOf (sr_Inputs (VS r1))"
    from p obtain r2 where r: "um j = Inr r2" and out: "o1 = parsed srt r2 info"
      by (rule parseReflection_Inr)
    from r u have "r2 = r1" by simp
    with out have ins: "Inputs o1 = srt lessLocation ?all" by (simp add: parsed_def)
    from assms(1) have m: "mset (Inputs o1) = mset ?all"
      and s: "sorted_wrt (\<lambda>a b. \<not> lessLocation b a) (Inputs o1)"
      by (simp_all add: sortsByLocation_def ins)
    from m have "mset (map il_Location (Inputs o1)) = mset (map il_Location ?all)"
      by (metis mset_map)
    then have "mset (map il_Location (Inputs o1)) =
        mset (map il_Location (Inputs info) @ map ir_Location (sr_Inputs (VS r1)))"
      by (simp add: comp_def)
    with d have "distinct (map il_Location (Inputs o1))"
      by (metis mset_eq_imp_distinct_iff)
    from strictly_sorted_locations [OF s this] m show ?thesis by simp
  qed
  from sorted [OF assms(2) assms(4) assms(3)]
  have s1: "sorted_wrt (\<lambda>a b. il_Location a <s il_Location b) (Inputs out)"
    and m1: "mset (Inputs out) =
      mset (Inputs info) + mset (map inputLocationOf (sr_Inputs (VS reflect)))"
    by simp_all
  from m1 have "mset (map il_Location (Inputs out)) =
      mset (map il_Location (Inputs info @ map inputLocationOf (sr_Inputs (VS reflect))))"
    by (metis mset_append mset_map)
  then have locs: "mset (map il_Location (Inputs out)) =
      mset (map il_Location (Inputs info)) + mset (map ir_Location (sr_Inputs (VS reflect)))"
    by (simp add: comp_def)
  have same: "Inputs out' = Inputs out"
    if u: "unmarshal' jsonData' = Inr reflect'"
      and m: "mset (sr_Inputs (VS reflect')) = mset (sr_Inputs (VS reflect))"
      and p: "parseReflection unmarshal' srt jsonData' info = Inr out'"
  proof -
    from m have "mset (map ir_Location (sr_Inputs (VS reflect'))) =
        mset (map ir_Location (sr_Inputs (VS reflect)))"
      by (metis mset_map)
    then have "mset (map il_Location (Inputs info) @ map ir_Location (sr_Inputs (VS reflect'))) =
        mset (map il_Location (Inputs info) @ map ir_Location (sr_Inputs (VS reflect)))"
      by simp
    with assms(3)
    have d: "distinct (map il_Location (Inputs info) @ map ir_Location (sr_Inputs (VS reflect')))"
      by (metis mset_eq_imp_distinct_iff)
    from sorted [OF u p d]
    have s2: "sorted_wrt (\<lambda>a b. il_Location a <s il_Location b) (Inputs out')"
      and m2: "mset (Inputs out') =
        mset (Inputs info) + mset (map inputLocationOf (sr_Inputs (VS reflect')))"
      by simp_all
    from m have "mset (map inputLocationOf (sr_Inputs (VS reflect'))) =
        mset (map inputLocationOf (sr_Inputs (VS reflect)))"
      by (metis mset_map)
    with m1 m2 have "mset (Inputs out') = mset (Inputs out)" by simp
    with s2 s1 show ?thesis by (intro strictly_sorted_locations_unique)
  qed
  from s1 locs same show ?thesis by blast
qed

theorem parseReflection_inputs_sorted_witness:
  "sortsByLocation insertionSort \<and>
   example_unmarshal [0] = Inr example_reflect \<and>
   map ir_Location (sr_Inputs (VS example_reflect)) = [1, 0] \<and>
   distinct (map il_Location (Inputs ShaderSources_zero) @
             map ir_Location (sr_Inputs (VS example_reflect))) \<and>
   parseReflection example_unmarshal insertionSort [0] ShaderSources_zero =
     Inr (parsed insertionSort example_reflect ShaderSources_zero) \<and>
   map il_Location (Inputs (parsed insertionSort example_reflect ShaderSources_zero)) = [0, 1] \<and>
   sorted_wrt (\<lambda>a b. il_Location a <s il_Location b)
     (Inputs (parsed insertionSort example_reflect ShaderSources_zero)) \<and>
   map ir_Location (sr_Inputs (VS example_reflect_rev)) = [0, 1] \<and>
   parseReflection (\<lambda>d. Inr example_reflect_rev) insertionSort [] ShaderSources_zero =
     Inr (parsed insertionSort example_reflect_rev ShaderSources_zero) \<and>
   Inputs (parsed insertionSort example_reflect_rev ShaderSources_zero) =
     Inputs (parsed insertionSort example_reflect ShaderSources_zero)"
proof -
  have u: "example_unmarshal [0] = Inr example_reflect"
    by (simp add: example_unmarshal_def)
  have l: "map ir_Location (sr_Inputs (VS example_reflect)) = [1, 0]"
    by (simp add: example_reflect_def example_inputs_def)
  have l': "map ir_Location (sr_Inputs (VS example_reflect_rev)) = [0, 1]"
    by (simp add: example_reflect_rev_def example_reflect_def example_inputs_def)
  have d: "distinct (map il_Location (Inputs ShaderSources_zero) @
             map ir_Location (sr_Inputs (VS example_reflect)))"
    by (simp add: l ShaderSources_zero_def)
  have m: "mset (sr_Inputs (VS example_reflect_rev)) = mset (sr_Inputs (VS example_reflect))"
    by (simp add: example_reflect_rev_def)
  have p': "parseReflection (\<lambda>d. Inr example_reflect_rev) insertionSort [] ShaderSources_zero =
     Inr (parsed insertionSort example_reflect_rev ShaderSources_zero)"
    by (rule parseReflection_wellTyped)
      (simp_all add: wellTyped_def supported_def parseDataType_def example_reflect_rev_def
        example_reflect_def example_inputs_def example_blocks_def shaderBlocksOf_def)
  note T = parseReflection_inputs_sorted [where unmarshal = example_unmarshal and jsonData = "[0]"
      and unmarshal' = "\<lambda>d. Inr example_reflect_rev" and jsonData' = "[]"
      and reflect' = example_reflect_rev
      and out' = "parsed insertionSort example_reflect_rev ShaderSources_zero",
      OF sortsByLocation_insertionSort u d example_parse]
  from T have s: "sorted_wrt (\<lambda>a b. il_Location a <s il_Location b)
     (Inputs (parsed insertionSort example_reflect ShaderSources_zero))"
    by blast
  from T m p' have same: "Inputs (parsed insertionSort example_reflect_rev ShaderSources_zero) =
     Inputs (parsed insertionSort example_reflect ShaderSources_zero)"
    by blast
  show ?thesis
    by (intro conjI)
      (rule sortsByLocation_insertionSort u l d example_parse example_parsed_Inputs s l' p' same)+
qed

lemma fmt_d_5: "fmt_d 5 = ''5''"
  by code_simp

lemma fmt_d_7: "fmt_d 7 = ''7''"
  by code_simp

lemma example_parse_once:
  "parseReflection example_unmarshal insertionSort [0] ShaderSources_zero = Inr example_once"
  by (simp add: parseReflection_def example_unmarshal_def example_reflect_def example_inputs_def
      example_blocks_def example_textures_def ShaderSources_zero_def parseDataType_def
      insertionSort_def lessLocation_def word_sless_alt fmt_d_5 fmt_d_7 example_once_def)

lemma example_parse_twice:
  "parseReflection example_unmarshal insertionSort [0] example_once = Inr example_twice"
  by (simp add: parseReflection_def example_unmarshal_def example_reflect_def example_inputs_def
      example_blocks_def example_textures_def parseDataType_def
      insertionSort_def lessLocation_def word_sless_alt fmt_d_5 fmt_d_7 example_once_def
      example_twice_def)

text \<open>
  C1. After a successful call the new uniform locations are, block by block in the order
  of the selected stage's blocks, the members of block \<open>k\<close> at the offset \<open>S1 + ... +
  S(k-1) + member.offset\<close>, named after the block's id and the member, and
  \<^verbatim>\<open>Uniforms.Size\<close> is the sum of all block sizes. For two blocks the offsets are the first
  block's member offsets, then \<open>S1 + member.offset\<close>, and the size is \<open>S1 + S2\<close>. The sums are
  those of Go's \<^verbatim>\<open>int\<close>.
\<close>

theorem parseReflection_uniform_offsets:
  assumes "unmarshal jsonData = Inr reflect"
    and "blocks = (if sr_UniformBuffers (VS reflect) = [] then sr_UniformBuffers (FS reflect)
                   else sr_UniformBuffers (VS reflect))"
    and "parseReflection unmarshal srt jsonData info = Inr out"
  shows "map (\<lambda>l. (ul_Name l, ul_Offset l)) (ur_Locations (Uniforms out)) =
           map (\<lambda>l. (ul_Name l, ul_Offset l)) (ur_Locations (Uniforms info)) @
           concat (map (\<lambda>k. map (\<lambda>m. (''_'' @ fmt_d (ubr_ID (blocks ! k)) @ ''.'' @ um_Name m,
                                        sum_list (map ubr_Size (take k blocks)) + um_Offset m))
                                 (ubr_Members (blocks ! k)))
                       [0..<length blocks]) \<and>
         ur_Size (Uniforms out) = sum_list (map ubr_Size blocks) \<and>
         (\<forall>b1 b2. blocks = [b1, b2] \<longrightarrow>
            map ul_Offset (drop (length (ur_Locations (Uniforms info)))
                             (ur_Locations (Uniforms out))) =
              map um_Offset (ubr_Members b1) @
              map (\<lambda>m. ubr_Size b1 + um_Offset m) (ubr_Members b2) \<and>
            ur_Size (Uniforms out) = ubr_Size b1 + ubr_Size b2)"
proof -
  from assms(3) obtain reflect' where r: "unmarshal jsonData = Inr reflect'"
    and out: "out = parsed srt reflect' info"
    by (rule parseReflection_Inr)
  from r assms(1) have "reflect' = reflect" by simp
  with out assms(2) have locs: "ur_Locations (Uniforms out) =
      ur_Locations (Uniforms info) @ blockLocations blocks 0"
    and size: "ur_Size (Uniforms out) = sum_list (map ubr_Size blocks)"
    by (simp_all add: parsed_def shaderBlocksOf_def)
  have named: "map (\<lambda>l. (ul_Name l, ul_Offset l)) (blockLocations blocks 0) =
      concat (map (\<lambda>k. map (\<lambda>m. (''_'' @ fmt_d (ubr_ID (blocks ! k)) @ ''.'' @ um_Name m,
                                   sum_list (map ubr_Size (take k blocks)) + um_Offset m))
                            (ubr_Members (blocks ! k)))
                  [0..<length blocks])"
    by (simp add: blockLocations_index map_concat comp_def uniformLocationOf_def)
  have two: "map ul_Offset (blockLocations [b1, b2] 0) =
      map um_Offset (ubr_Members b1) @ map (\<lambda>m. ubr_Size b1 + um_Offset m) (ubr_Members b2)"
    for b1 b2
    by (simp add: comp_def uniformLocationOf_def)
  show ?thesis
    using named two by (simp add: locs size)
qed

theorem parseReflection_uniform_offsets_witness:
  "example_unmarshal [0] = Inr example_reflect \<and>
   example_blocks = (if sr_UniformBuffers (VS example_reflect) = []
                     then sr_UniformBuffers (FS example_reflect)
                     else sr_UniformBuffers (VS example_reflect)) \<and>
   map ubr_Size example_blocks = [16, 32] \<and>
   parseReflection example_unmarshal insertionSort [0] ShaderSources_zero = Inr example_once \<and>
   map (\<lambda>l. (ul_Name l, ul_Offset l)) (ur_Locations (Uniforms example_once)) =
     [(''_5._color'', 0), (''_7._color1'', 16), (''_7._steps'', 32)] \<and>
   ur_Size (Uniforms example_once) = 48"
proof -
  have u: "example_unmarshal [0] = Inr example_reflect"
    by (simp add: example_unmarshal_def)
  have b: "example_blocks = (if sr_UniformBuffers (VS example_reflect) = []
                     then sr_UniformBuffers (FS example_reflect)
                     else sr_UniformBuffers (VS example_reflect))"
    by (simp add: example_reflect_def)
  have s: "map ubr_Size example_blocks = [16, 32]"
    by (simp add: example_blocks_def)
  note T = parseReflection_uniform_offsets [OF u b example_parse_once]
  from T have size: "ur_Size (Uniforms example_once) = 48"
    by (simp add: s)
  from T have names: "map (\<lambda>l. (ul_Name l, ul_Offset l)) (ur_Locations (Uniforms example_once)) =
     [(''_5._color'', 0), (''_7._color1'', 16), (''_7._steps'', 32)]"
    by (simp add: ShaderSources_zero_def example_blocks_def fmt_d_5 fmt_d_7)
  show ?thesis
    by (intro conjI) (rule u b s example_parse_once names size)+
qed

text \<open>
  C5. The uniform blocks and the textures of the result are those of the fragment stage when
  the vertex stage has none, and those of the vertex stage otherwise. With no vertex-stage
  block (texture) the call does what it does on the document that has the fragment stage's
  blocks (textures) in its vertex stage; with at least one, replacing the fragment stage's
  blocks (textures) by any others changes nothing. The two rules are independent.
\<close>

theorem parseReflection_fallback:
  assumes "unmarshal jsonData = Inr reflect"
  shows "(parseReflection unmarshal srt jsonData info = Inr out \<longrightarrow>
            ur_Blocks (Uniforms out) =
              ur_Blocks (Uniforms info) @
              map uniformBlockOf
                (if sr_UniformBuffers (VS reflect) = [] then sr_UniformBuffers (FS reflect)
                 else sr_UniformBuffers (VS reflect)) \<and>
            Textures out =
              Textures info @
              map textureBindingOf
                (if sr_Textures (VS reflect) = [] then sr_Textures (FS reflect)
                 else sr_Textures (VS reflect))) \<and>
         (sr_UniformBuffers (VS reflect) = [] \<longrightarrow>
            unmarshal' jsonData' =
              Inr (reflect\<lparr>VS := (VS reflect)\<lparr>sr_UniformBuffers := sr_UniformBuffers (FS reflect)\<rparr>\<rparr>) \<longrightarrow>
            parseReflection unmarshal' srt jsonData' info =
              parseReflection unmarshal srt jsonData info) \<and>
         (sr_UniformBuffers (VS reflect) \<noteq> [] \<longrightarrow>
            unmarshal' jsonData' = Inr (reflect\<lparr>FS := (FS reflect)\<lparr>sr_UniformBuffers := bs\<rparr>\<rparr>) \<longrightarrow>
            parseReflection unmarshal' srt jsonData' info =
              parseReflection unmarshal srt jsonData info) \<and>
         (sr_Textures (VS reflect) = [] \<longrightarrow>
            unmarshal' jsonData' =
              Inr (reflect\<lparr>VS := (VS reflect)\<lparr>sr_Textures := sr_Textures (FS reflect)\<rparr>\<rparr>) \<longrightarrow>
            parseReflection unmarshal' srt jsonData' info =
              parseReflection unmarshal srt jsonData info) \<and>
         (sr_Textures (VS reflect) \<noteq> [] \<longrightarrow>
            unmarshal' jsonData' = Inr (reflect\<lparr>FS := (FS reflect)\<lparr>sr_Textures := ts\<rparr>\<rparr>) \<longrightarrow>
            parseReflection unmarshal' srt jsonData' info =
              parseReflection unmarshal srt jsonData info)"
proof -
  have lists: "ur_Blocks (Uniforms out) =
        ur_Blocks (Uniforms info) @ map uniformBlockOf (shaderBlocksOf reflect) \<and>
      Textures out = Textures info @ map textureBindingOf (texturesOf reflect)"
    if "parseReflection unmarshal srt jsonData info = Inr out"
  proof -
    from that obtain reflect' where r: "unmarshal jsonData = Inr reflect'"
      and out: "out = parsed srt reflect' info"
      by (rule parseReflection_Inr)
    from r assms have "reflect' = reflect" by simp
    with out show ?thesis by (simp add: parsed_def)
  qed
  have same: "parseReflection unmarshal' srt jsonData' info =
      parseReflection unmarshal srt jsonData info"
    if "unmarshal' jsonData' = Inr reflect'"
      and "sr_Inputs (VS reflect') = sr_Inputs (VS reflect)"
      and "shaderBlocksOf reflect' = shaderBlocksOf reflect"
      and "texturesOf reflect' = texturesOf reflect"
    for reflect'
    using that assms by (simp add: parseReflection_decoded cong: sum.case_cong)
  have b0: "sr_UniformBuffers (VS reflect) = [] \<longrightarrow>
            unmarshal' jsonData' =
              Inr (reflect\<lparr>VS := (VS reflect)\<lparr>sr_UniformBuffers := sr_UniformBuffers (FS reflect)\<rparr>\<rparr>) \<longrightarrow>
            parseReflection unmarshal' srt jsonData' info =
              parseReflection unmarshal srt jsonData info"
    by (auto intro!: same simp: shaderBlocksOf_def texturesOf_def)
  have b1: "sr_UniformBuffers (VS reflect) \<noteq> [] \<longrightarrow>
            unmarshal' jsonData' = Inr (reflect\<lparr>FS := (FS reflect)\<lparr>sr_UniformBuffers := bs\<rparr>\<rparr>) \<longrightarrow>
            parseReflection unmarshal' srt jsonData' info =
              parseReflection unmarshal srt jsonData info"
    by (auto intro!: same simp: shaderBlocksOf_def texturesOf_def)
  have t0: "sr_Textures (VS reflect) = [] \<longrightarrow>
            unmarshal' jsonData' =
              Inr (reflect\<lparr>VS := (VS reflect)\<lparr>sr_Textures := sr_Textures (FS reflect)\<rparr>\<rparr>) \<longrightarrow>
            parseReflection unmarshal' srt jsonData' info =
              parseReflection unmarshal srt jsonData info"
    by (auto intro!: same simp: shaderBlocksOf_def texturesOf_def)
  have t1: "sr_Textures (VS reflect) \<noteq> [] \<longrightarrow>
            unmarshal' jsonData' = Inr (reflect\<lparr>FS := (FS reflect)\<lparr>sr_Textures := ts\<rparr>\<rparr>) \<longrightarrow>
            parseReflection unmarshal' srt jsonData' info =
              parseReflection unmarshal srt jsonData info"
    by (auto intro!: same simp: shaderBlocksOf_def texturesOf_def)
  from lists b0 b1 t0 t1 show ?thesis
    unfolding shaderBlocksOf_def texturesOf_def by blast
qed

theorem parseReflection_fallback_witness:
  "example_unmarshal [0] = Inr example_reflect \<and>
   sr_UniformBuffers (VS example_reflect) = [] \<and>
   sr_Textures (VS example_reflect) = [] \<and>
   parseReflection example_unmarshal insertionSort [0] ShaderSources_zero = Inr example_once \<and>
   ur_Blocks (Uniforms example_once) =
     map uniformBlockOf (sr_UniformBuffers (FS example_reflect)) \<and>
   Textures example_once = map textureBindingOf (sr_Textures (FS example_reflect)) \<and>
   example_unmarshal [1] = Inr example_reflect_vs \<and>
   sr_UniformBuffers (VS example_reflect_vs) \<noteq> [] \<and>
   parseReflection
     (\<lambda>d. Inr (example_reflect_vs\<lparr>FS := (FS example_reflect_vs)\<lparr>sr_UniformBuffers := []\<rparr>\<rparr>))
     insertionSort [] ShaderSources_zero =
   parseReflection example_unmarshal insertionSort [1] ShaderSources_zero"
proof -
  have u0: "example_unmarshal [0] = Inr example_reflect"
    by (simp add: example_unmarshal_def)
  have u1: "example_unmarshal [1] = Inr example_reflect_vs"
    by (simp add: example_unmarshal_def)
  have b0: "sr_UniformBuffers (VS example_reflect) = []"
    and t0: "sr_Textures (VS example_reflect) = []"
    by (simp_all add: example_reflect_def)
  have b1: "sr_UniformBuffers (VS example_reflect_vs) \<noteq> []"
    by (simp add: example_reflect_vs_def)
  note T0 = parseReflection_fallback [where unmarshal = example_unmarshal and jsonData = "[0]"
      and srt = insertionSort and info = ShaderSources_zero and out = example_once, OF u0]
  from T0 example_parse_once b0 t0
  have lists: "ur_Blocks (Uniforms example_once) =
       map uniformBlockOf (sr_UniformBuffers (FS example_reflect)) \<and>
     Textures example_once = map textureBindingOf (sr_Textures (FS example_reflect))"
    by (simp add: ShaderSources_zero_def)
  note T1 = parseReflection_fallback [where unmarshal = example_unmarshal and jsonData = "[1]"
      and unmarshal' = "\<lambda>d. Inr (example_reflect_vs\<lparr>FS := (FS example_reflect_vs)\<lparr>sr_UniformBuffers := []\<rparr>\<rparr>)"
      and jsonData' = "[]" and bs = "[]" and srt = insertionSort and info = ShaderSources_zero,
      OF u1]
  from T1 b1 have ignored: "parseReflection
     (\<lambda>d. Inr (example_reflect_vs\<lparr>FS := (FS example_reflect_vs)\<lparr>sr_UniformBuffers := []\<rparr>\<rparr>))
     insertionSort [] ShaderSources_zero =
   parseReflection example_unmarshal insertionSort [1] ShaderSources_zero"
    by blast
  from u0 b0 t0 example_parse_once lists u1 b1 ignored show ?thesis by blast
qed

text \<open>
  C9. A call on any record succeeds exactly when the call on the empty record does, and
  then keeps what the record holds and appends what the call on the empty record makes:
  the inputs are a rearrangement of the old and the new ones in which no input is at a
  smaller location than an earlier one; the new blocks, uniform locations (at the offsets
  they have in the empty record) and textures follow the old ones; \<^verbatim>\<open>Uniforms.Size\<close> is the
  new document's total alone. A second call on the result of the first doubles every list.
\<close>

theorem parseReflection_appends:
  assumes "sortsByLocation srt"
    and "parseReflection unmarshal srt jsonData ShaderSources_zero = Inr out0"
  shows "(\<exists>out. parseReflection unmarshal srt jsonData info = Inr out \<and>
            mset (Inputs out) = mset (Inputs info) + mset (Inputs out0) \<and>
            sorted_wrt (\<lambda>a b. \<not> il_Location b <s il_Location a) (Inputs out) \<and>
            ur_Blocks (Uniforms out) = ur_Blocks (Uniforms info) @ ur_Blocks (Uniforms out0) \<and>
            ur_Locations (Uniforms out) =
              ur_Locations (Uniforms info) @ ur_Locations (Uniforms out0) \<and>
            ur_Size (Uniforms out) = ur_Size (Uniforms out0) \<and>
            Textures out = Textures info @ Textures out0) \<and>
         (\<exists>out2. parseReflection unmarshal srt jsonData out0 = Inr out2 \<and>
            mset (Inputs out2) = mset (Inputs out0) + mset (Inputs out0) \<and>
            length (Inputs out2) = 2 * length (Inputs out0) \<and>
            ur_Blocks (Uniforms out2) = ur_Blocks (Uniforms out0) @ ur_Blocks (Uniforms out0) \<and>
            ur_Locations (Uniforms out2) =
              ur_Locations (Uniforms out0) @ ur_Locations (Uniforms out0) \<and>
            ur_Size (Uniforms out2) = ur_Size (Uniforms out0) \<and>
            Textures out2 = Textures out0 @ Textures out0)"
proof -
  from assms(2) obtain reflect where r: "unmarshal jsonData = Inr reflect"
    and wt: "wellTyped reflect" and out0: "out0 = parsed srt reflect ShaderSources_zero"
    by (rule parseReflection_Inr)
  let ?new = "map inputLocationOf (sr_Inputs (VS reflect))"
  from assms(1) have perm: "mset (srt lessLocation xs) = mset xs"
    and srtd: "sorted_wrt (\<lambda>a b. \<not> il_Location b <s il_Location a) (srt lessLocation xs)" for xs
    by (simp_all add: sortsByLocation_def lessLocation_def)
  have in0: "mset (Inputs out0) = mset ?new"
    by (simp add: out0 parsed_def ShaderSources_zero_def perm)
  have general: "parseReflection unmarshal srt jsonData i = Inr (parsed srt reflect i) \<and>
      mset (Inputs (parsed srt reflect i)) = mset (Inputs i) + mset (Inputs out0) \<and>
      sorted_wrt (\<lambda>a b. \<not> il_Location b <s il_Location a) (Inputs (parsed srt reflect i)) \<and>
      ur_Blocks (Uniforms (parsed srt reflect i)) =
        ur_Blocks (Uniforms i) @ ur_Blocks (Uniforms out0) \<and>
      ur_Locations (Uniforms (parsed srt reflect i)) =
        ur_Locations (Uniforms i) @ ur_Locations (Uniforms out0) \<and>
      ur_Size (Uniforms (parsed srt reflect i)) = ur_Size (Uniforms out0) \<and>
      Textures (parsed srt reflect i) = Textures i @ Textures out0" for i
    using parseReflection_wellTyped [of unmarshal jsonData reflect srt i] r wt in0
    by (simp add: parsed_def perm srtd out0 ShaderSources_zero_def)
  from general [of out0] have "length (Inputs (parsed srt reflect out0)) = 2 * length (Inputs out0)"
    by (metis mult_2 size_mset size_union)
  with general [of info] general [of out0] show ?thesis by blast
qed

theorem parseReflection_appends_witness:
  "sortsByLocation insertionSort \<and>
   parseReflection example_unmarshal insertionSort [0] ShaderSources_zero = Inr example_once \<and>
   parseReflection example_unmarshal insertionSort [0] example_once = Inr example_twice \<and>
   mset (Inputs example_twice) = mset (Inputs example_once) + mset (Inputs example_once) \<and>
   length (Inputs example_twice) = 2 * length (Inputs example_once) \<and>
   ur_Blocks (Uniforms example_twice) =
     ur_Blocks (Uniforms example_once) @ ur_Blocks (Uniforms example_once) \<and>
   ur_Locations (Uniforms example_twice) =
     ur_Locations (Uniforms example_once) @ ur_Locations (Uniforms example_once) \<and>
   ur_Size (Uniforms example_twice) = ur_Size (Uniforms example_once) \<and>
   Textures example_twice = Textures example_once @ Textures example_once"
  using parseReflection_appends [OF sortsByLocation_insertionSort example_parse_once,
      of example_once]
    sortsByLocation_insertionSort example_parse_once example_parse_twice
  by simp

text \<open>
  C6. \<^verbatim>\<open>parseReflection\<close> is not idempotent: it appends to the record it is given, so the
  second call on the same record returns other sequences than the first (the example
  document, parsed into the empty record and then again into the result).
\<close>

theorem parseReflection_not_idempotent:
  "parseReflection example_unmarshal insertionSort [0] ShaderSources_zero = Inr example_once \<and>
   parseReflection example_unmarshal insertionSort [0] example_once = Inr example_twice \<and>
   Inputs example_twice \<noteq> Inputs example_once \<and>
   ur_Locations (Uniforms example_twice) \<noteq> ur_Locations (Uniforms example_once) \<and>
   Textures example_twice \<noteq> Textures example_once"
  by (simp add: example_parse_once example_parse_twice)
    (simp add: example_once_def example_twice_def)

text \<open>
  C6, amended. What holds is that the call is repeatable: on two records that hold the
  same inputs, uniform locations and textures (two empty records, as in \<^verbatim>\<open>generate\<close>), the
  same document gives the same three sequences, whatever else the records hold; and the
  call fails on both or on neither.
\<close>

theorem parseReflection_repeatable:
  assumes "Inputs info' = Inputs info"
    and "ur_Locations (Uniforms info') = ur_Locations (Uniforms info)"
    and "Textures info' = Textures info"
  shows "(parseReflection unmarshal srt jsonData info = Inr out \<longrightarrow>
            (\<exists>out'. parseReflection unmarshal srt jsonData info' = Inr out' \<and>
               Inputs out' = Inputs out \<and>
               ur_Locations (Uniforms out') = ur_Locations (Uniforms out) \<and>
               Textures out' = Textures out)) \<and>
         (parseReflection unmarshal srt jsonData info = Inl e \<longrightarrow>
            (\<exists>e'. parseReflection unmarshal srt jsonData info' = Inl e'))"
proof (intro conjI impI)
  assume "parseReflection unmarshal srt jsonData info = Inr out"
  then obtain reflect where r: "unmarshal jsonData = Inr reflect"
    and wt: "wellTyped reflect" and out: "out = parsed srt reflect info"
    by (rule parseReflection_Inr)
  from parseReflection_wellTyped [of unmarshal jsonData reflect srt info'] r wt
  have "parseReflection unmarshal srt jsonData info' = Inr (parsed srt reflect info')" by simp
  with assms out show "\<exists>out'. parseReflection unmarshal srt jsonData info' = Inr out' \<and>
      Inputs out' = Inputs out \<and>
      ur_Locations (Uniforms out') = ur_Locations (Uniforms out) \<and>
      Textures out' = Textures out"
    by (simp add: parsed_def)
next
  assume l: "parseReflection unmarshal srt jsonData info = Inl e"
  show "\<exists>e'. parseReflection unmarshal srt jsonData info' = Inl e'"
  proof (cases "parseReflection unmarshal srt jsonData info'")
    case (Inl e')
    then show ?thesis by simp
  next
    case (Inr out')
    then obtain reflect where r: "unmarshal jsonData = Inr reflect" and wt: "wellTyped reflect"
      by (rule parseReflection_Inr)
    from parseReflection_wellTyped [of unmarshal jsonData reflect srt info] r wt l
    show ?thesis by simp
  qed
qed

theorem parseReflection_repeatable_witness:
  "Inputs (ShaderSources_zero\<lparr>GLSL100ES := ''#version 100''\<rparr>) = Inputs ShaderSources_zero \<and>
   ur_Locations (Uniforms (ShaderSources_zero\<lparr>GLSL100ES := ''#version 100''\<rparr>)) =
     ur_Locations (Uniforms ShaderSources_zero) \<and>
   Textures (ShaderSources_zero\<lparr>GLSL100ES := ''#version 100''\<rparr>) = Textures ShaderSources_zero \<and>
   parseReflection example_unmarshal insertionSort [0] ShaderSources_zero = Inr example_once \<and>
   parseReflection example_unmarshal insertionSort [0]
     (ShaderSources_zero\<lparr>GLSL100ES := ''#version 100''\<rparr>) =
     Inr (example_once\<lparr>GLSL100ES := ''#version 100''\<rparr>)"
proof -
  have run: "parseReflection example_unmarshal insertionSort [0]
     (ShaderSources_zero\<lparr>GLSL100ES := ''#version 100''\<rparr>) =
     Inr (example_once\<lparr>GLSL100ES := ''#version 100''\<rparr>)"
    by (simp add: parseReflection_def example_unmarshal_def example_reflect_def example_inputs_def
      example_blocks_def example_textures_def ShaderSources_zero_def parseDataType_def
      insertionSort_def lessLocation_def word_sless_alt fmt_d_5 fmt_d_7 example_once_def)
  from parseReflection_repeatable [of "ShaderSources_zero\<lparr>GLSL100ES := ''#version 100''\<rparr>"
      ShaderSources_zero example_unmarshal insertionSort "[0]" example_once]
    example_parse_once run
  show ?thesis by simp
qed

section \<open>The loops of generate\<close>

lemma args_eq: "args = [uniformColorArgs, texturedArgs]"
  by (simp add: args_def uniformColorArgs_def texturedArgs_def)

lemma variantsLoop_args:
  "variantsLoop env tmp glslcc fxc fxcFound shader args =
     (case variantBody env tmp glslcc fxc fxcFound shader uniformColorArgs variant_zero of
        Inl err \<Rightarrow> Inl err
      | Inr v0 \<Rightarrow>
          (case variantBody env tmp glslcc fxc fxcFound shader texturedArgs variant_zero of
             Inl err \<Rightarrow> Inl err
           | Inr v1 \<Rightarrow> Inr [v0, v1]))"
  by (simp add: args_eq split: sum.splits)

lemma shaderBody_variants:
  assumes "variantBody env tmp glslcc fxc fxcFound shader uniformColorArgs variant_zero = Inr v0"
    and "variantBody env tmp glslcc fxc fxcFound shader texturedArgs variant_zero = Inr v1"
  shows "shaderBody env tmp glslcc fxc fxcFound shader =
     Inr \<lparr>se_name = ReplaceAll_dot (Base shader),
          se_multiVariant =
            (GLSL100ES (ShaderSources v0) \<noteq> GLSL100ES (ShaderSources v1)),
          se_literals =
            (if GLSL100ES (ShaderSources v0) = GLSL100ES (ShaderSources v1)
             then [sourcesLit v0] else [sourcesLit v0, sourcesLit v1])\<rparr>"
  by (simp add: shaderBody_def variantsLoop_args assms)

lemma shaderBody_Inr:
  assumes "shaderBody env tmp glslcc fxc fxcFound shader = Inr entry"
  obtains v0 v1
  where "variantBody env tmp glslcc fxc fxcFound shader uniformColorArgs variant_zero = Inr v0"
    and "variantBody env tmp glslcc fxc fxcFound shader texturedArgs variant_zero = Inr v1"
  using assms by (auto simp: shaderBody_def variantsLoop_args split: sum.splits)

lemma shaderBody_first_fails:
  "variantBody env tmp glslcc fxc fxcFound shader uniformColorArgs variant_zero = Inl e \<Longrightarrow>
   shaderBody env tmp glslcc fxc fxcFound shader = Inl e"
  by (simp add: shaderBody_def variantsLoop_args)

lemma shaderBody_second_fails:
  "variantBody env tmp glslcc fxc fxcFound shader uniformColorArgs variant_zero = Inr v0 \<Longrightarrow>
   variantBody env tmp glslcc fxc fxcFound shader texturedArgs variant_zero = Inl e \<Longrightarrow>
   shaderBody env tmp glslcc fxc fxcFound shader = Inl e"
  by (simp add: shaderBody_def variantsLoop_args)

lemma shadersLoop_Inr_iff:
  "shadersLoop env tmp glslcc fxc fxcFound shaders = Inr entries \<longleftrightarrow>
   list_all2 (\<lambda>shader entry. shaderBody env tmp glslcc fxc fxcFound shader = Inr entry)
     shaders entries"
proof (induction shaders arbitrary: entries)
  case Nil
  show ?case by auto
next
  case (Cons s shaders)
  show ?case
    by (auto simp: list_all2_Cons1 Cons.IH [symmetric] split: sum.splits)
qed

lemma shadersLoop_fails:
  assumes "i < length shaders"
    and "\<forall>j<i. \<not> isl (shaderBody env tmp glslcc fxc fxcFound (shaders ! j))"
    and "shaderBody env tmp glslcc fxc fxcFound (shaders ! i) = Inl e"
  shows "shadersLoop env tmp glslcc fxc fxcFound shaders = Inl e"
  using assms
proof (induction shaders arbitrary: i)
  case Nil
  then show ?case by simp
next
  case (Cons s shaders)
  show ?case
  proof (cases i)
    case 0
    with Cons.prems show ?thesis by simp
  next
    case (Suc k)
    from Cons.prems(2) Suc have "\<not> isl (shaderBody env tmp glslcc fxc fxcFound s)"
      by auto
    then obtain entry where s: "shaderBody env tmp glslcc fxc fxcFound s = Inr entry"
      by (cases "shaderBody env tmp glslcc fxc fxcFound s") auto
    from Cons.prems Suc have "shadersLoop env tmp glslcc fxc fxcFound shaders = Inl e"
      by (intro Cons.IH [of k]) auto
    with s show ?thesis by simp
  qed
qed

lemma generate_out_started:
  assumes "TempDir env = Inr tmp" and "snd (LookPath env ''glslcc'') = None"
    and "Glob env ''shaders/*'' = Inr shaders"
  shows "generate_out env =
     (case shadersLoop env (projr (TempDir env)) (fst (LookPath env ''glslcc''))
             (fst (LookPath env ''fxc'')) (snd (LookPath env ''fxc'') = None) shaders of
        Inl err \<Rightarrow> Inl err
      | Inr entries \<Rightarrow> Inr \<lparr>ob_package = packageName env, ob_entries = entries\<rparr>)"
  using assms
  by (cases "LookPath env ''glslcc''"; cases "LookPath env ''fxc''")
    (simp add: generate_out_def Let_def)

lemma generate_out_Inr:
  assumes "generate_out env = Inr out"
  obtains tmp shaders where "TempDir env = Inr tmp" and "snd (LookPath env ''glslcc'') = None"
    and "Glob env ''shaders/*'' = Inr shaders"
    and "list_all2 (\<lambda>shader entry. generate_entry env shader = Inr entry) shaders (ob_entries out)"
    and "ob_package out = packageName env"
proof -
  from assms obtain tmp where t: "TempDir env = Inr tmp"
    by (cases "TempDir env") (auto simp: generate_out_def)
  from assms t have g: "snd (LookPath env ''glslcc'') = None"
    by (cases "LookPath env ''glslcc''") (auto simp: generate_out_def split: option.splits)
  from assms t g obtain shaders where s: "Glob env ''shaders/*'' = Inr shaders"
    by (cases "LookPath env ''glslcc''"; cases "LookPath env ''fxc''"; cases "Glob env ''shaders/*''")
      (auto simp: generate_out_def Let_def)
  from assms obtain entries
    where l: "shadersLoop env (projr (TempDir env)) (fst (LookPath env ''glslcc''))
             (fst (LookPath env ''fxc'')) (snd (LookPath env ''fxc'') = None) shaders = Inr entries"
      and out: "out = \<lparr>ob_package = packageName env, ob_entries = entries\<rparr>"
    unfolding generate_out_started [OF t g s] by (auto split: sum.splits)
  from l have "list_all2 (\<lambda>shader entry. generate_entry env shader = Inr entry) shaders entries"
    by (simp add: shadersLoop_Inr_iff generate_entry_def)
  with t g s out that show ?thesis by simp
qed

lemma generate_entry_variants:
  assumes "generate_variant env shader uniformColorArgs = Inr v0"
    and "generate_variant env shader texturedArgs = Inr v1"
  shows "generate_entry env shader =
     Inr \<lparr>se_name = ReplaceAll_dot (Base shader),
          se_multiVariant =
            (GLSL100ES (ShaderSources v0) \<noteq> GLSL100ES (ShaderSources v1)),
          se_literals =
            (if GLSL100ES (ShaderSources v0) = GLSL100ES (ShaderSources v1)
             then [sourcesLit v0] else [sourcesLit v0, sourcesLit v1])\<rparr>"
  using assms unfolding generate_entry_def generate_variant_def
  by (rule shaderBody_variants)

lemma generate_entry_Inr:
  assumes "generate_entry env shader = Inr entry"
  obtains v0 v1
  where "generate_variant env shader uniformColorArgs = Inr v0"
    and "generate_variant env shader texturedArgs = Inr v1"
  using assms unfolding generate_entry_def generate_variant_def
  by (rule shaderBody_Inr)

section \<open>The example world\<close>

lemma Ext_blit: "Ext ''shaders/blit.frag'' = ''.frag''"
  by (simp add: Ext_def)

lemma example_env_variant:
  "generate_variant (example_env 0) ''shaders/blit.frag'' a =
     Inr \<lparr>ShaderSources =
            example_once\<lparr>GLSL100ES := ''#version 100'' @ [CHR 0x0A] @ ''gles100 '' @ FetchColorExpr a,
                         GLSL300ES := ''gles300 '' @ FetchColorExpr a,
                         HLSL := None\<rparr>,
          hlslSrc = ''hlsl40 '' @ FetchColorExpr a\<rparr>"
  by (simp add: generate_variant_def variantBody_def example_env_def example_parse_once
      hlslProfOf_def Ext_blit variant_zero_def)

lemma example_env_out:
  "\<not> isl (generate_out (example_env 0))"
  "map lit_GLSL100ES (se_literals (ob_entries (projr (generate_out (example_env 0))) ! 0)) =
     [''#version 100'' @ [CHR 0x0A] @ ''gles100 _color'',
      ''#version 100'' @ [CHR 0x0A] @ ''gles100 texture(tex, vUV)'']"
proof -
  have t: "TempDir (example_env 0) = Inr ''/tmp/shader-convert1''"
    and g: "snd (LookPath (example_env 0) ''glslcc'') = None"
    and s: "Glob (example_env 0) ''shaders/*'' = Inr [''shaders/blit.frag'']"
    by (simp_all add: example_env_def)
  have e: "generate_entry (example_env 0) ''shaders/blit.frag'' =
      Inr \<lparr>se_name = ReplaceAll_dot (Base ''shaders/blit.frag''), se_multiVariant = True,
           se_literals =
             [sourcesLit (projr (generate_variant (example_env 0) ''shaders/blit.frag'' uniformColorArgs)),
              sourcesLit (projr (generate_variant (example_env 0) ''shaders/blit.frag'' texturedArgs))]\<rparr>"
    by (simp add: generate_entry_variants [OF example_env_variant example_env_variant]
        example_env_variant uniformColorArgs_def texturedArgs_def)
  have o: "generate_out (example_env 0) =
      Inr \<lparr>ob_package = packageName (example_env 0),
           ob_entries = [projr (generate_entry (example_env 0) ''shaders/blit.frag'')]\<rparr>"
    unfolding generate_out_started [OF t g s]
    using e by (simp add: generate_entry_def)
  from o show "\<not> isl (generate_out (example_env 0))" by simp
  from o e show "map lit_GLSL100ES
       (se_literals (ob_entries (projr (generate_out (example_env 0))) ! 0)) =
     [''#version 100'' @ [CHR 0x0A] @ ''gles100 _color'',
      ''#version 100'' @ [CHR 0x0A] @ ''gles100 texture(tex, vUV)'']"
    by (simp add: example_env_variant sourcesLit_def uniformColorArgs_def texturedArgs_def)
qed

text \<open>
  C2. In the buffer that \<^verbatim>\<open>generate\<close> builds there is one entry per shader file, in the
  order of the files. The entry of a file holds one literal, the uniform-colour variant's,
  when the GLSL ES 100 texts of its two variants are equal, and otherwise two literals: the
  uniform-colour variant's first and the textured variant's second, the order of \<^verbatim>\<open>args\<close>.
\<close>

theorem generate_variants_emitted:
  assumes "generate_out env = Inr out"
    and "Glob env ''shaders/*'' = Inr shaders"
    and "i < length shaders"
  shows "args = [uniformColorArgs, texturedArgs] \<and>
         length (ob_entries out) = length shaders \<and>
         (\<exists>v0 v1. generate_variant env (shaders ! i) uniformColorArgs = Inr v0 \<and>
                  generate_variant env (shaders ! i) texturedArgs = Inr v1 \<and>
                  (GLSL100ES (ShaderSources v0) = GLSL100ES (ShaderSources v1) \<longrightarrow>
                     se_literals (ob_entries out ! i) = [sourcesLit v0] \<and>
                     \<not> se_multiVariant (ob_entries out ! i)) \<and>
                  (GLSL100ES (ShaderSources v0) \<noteq> GLSL100ES (ShaderSources v1) \<longrightarrow>
                     se_literals (ob_entries out ! i) = [sourcesLit v0, sourcesLit v1] \<and>
                     se_multiVariant (ob_entries out ! i)))"
proof -
  from assms(1) obtain tmp shaders' where "Glob env ''shaders/*'' = Inr shaders'"
    and "list_all2 (\<lambda>shader entry. generate_entry env shader = Inr entry) shaders' (ob_entries out)"
    by (rule generate_out_Inr)
  with assms(2)
  have all: "list_all2 (\<lambda>shader entry. generate_entry env shader = Inr entry) shaders (ob_entries out)"
    by simp
  then have len: "length (ob_entries out) = length shaders"
    by (simp add: list_all2_lengthD)
  from all assms(3) have entry: "generate_entry env (shaders ! i) = Inr (ob_entries out ! i)"
    by (rule list_all2_nthD)
  then obtain v0 v1 where v0: "generate_variant env (shaders ! i) uniformColorArgs = Inr v0"
    and v1: "generate_variant env (shaders ! i) texturedArgs = Inr v1"
    by (rule generate_entry_Inr)
  from generate_entry_variants [OF v0 v1] entry
  have "ob_entries out ! i =
     \<lparr>se_name = ReplaceAll_dot (Base (shaders ! i)),
      se_multiVariant = (GLSL100ES (ShaderSources v0) \<noteq> GLSL100ES (ShaderSources v1)),
      se_literals =
        (if GLSL100ES (ShaderSources v0) = GLSL100ES (ShaderSources v1)
         then [sourcesLit v0] else [sourcesLit v0, sourcesLit v1])\<rparr>"
    by simp
  then have "(GLSL100ES (ShaderSources v0) = GLSL100ES (ShaderSources v1) \<longrightarrow>
                     se_literals (ob_entries out ! i) = [sourcesLit v0] \<and>
                     \<not> se_multiVariant (ob_entries out ! i)) \<and>
                  (GLSL100ES (ShaderSources v0) \<noteq> GLSL100ES (ShaderSources v1) \<longrightarrow>
                     se_literals (ob_entries out ! i) = [sourcesLit v0, sourcesLit v1] \<and>
                     se_multiVariant (ob_entries out ! i))"
    by simp
  with v0 v1 len args_eq show ?thesis by blast
qed

theorem generate_variants_emitted_witness:
  "generate_out (example_env 0) = Inr (projr (generate_out (example_env 0))) \<and>
   Glob (example_env 0) ''shaders/*'' = Inr [''shaders/blit.frag''] \<and>
   (0::nat) < length [''shaders/blit.frag''] \<and>
   length (ob_entries (projr (generate_out (example_env 0)))) = 1 \<and>
   map lit_GLSL100ES (se_literals (ob_entries (projr (generate_out (example_env 0))) ! 0)) =
     [''#version 100'' @ [CHR 0x0A] @ ''gles100 _color'',
      ''#version 100'' @ [CHR 0x0A] @ ''gles100 texture(tex, vUV)'']"
proof -
  have o: "generate_out (example_env 0) = Inr (projr (generate_out (example_env 0)))"
    using example_env_out(1) by simp
  have s: "Glob (example_env 0) ''shaders/*'' = Inr [''shaders/blit.frag'']"
    by (simp add: example_env_def)
  have i: "(0::nat) < length [''shaders/blit.frag'']" by simp
  from generate_variants_emitted [OF o s i]
  have "length (ob_entries (projr (generate_out (example_env 0)))) = 1" by simp
  with o s i example_env_out(2) show ?thesis by blast
qed

lemma example_env_plain_variant:
  "generate_variant example_env_plain ''shaders/blit.frag'' a =
     Inr \<lparr>ShaderSources =
            example_once\<lparr>GLSL100ES := ''#version 100'' @ [CHR 0x0A] @ ''gles100'',
                         GLSL300ES := ''gles300'', HLSL := None\<rparr>,
          hlslSrc = ''hlsl40''\<rparr>"
  by (simp add: generate_variant_def variantBody_def example_env_plain_def example_env_def
      example_parse_once hlslProfOf_def Ext_blit variant_zero_def)

lemma example_env_plain_out:
  "generate_out example_env_plain =
     Inr \<lparr>ob_package = ''gpu'',
          ob_entries =
            [\<lparr>se_name = ''blit_frag'', se_multiVariant = False,
              se_literals =
                [\<lparr>lit_Inputs = Some (Inputs example_once),
                  lit_Uniforms = Some (Uniforms example_once),
                  lit_Textures = Some (Textures example_once),
                  lit_GLSL100ES = ''#version 100'' @ [CHR 0x0A] @ ''gles100'',
                  lit_GLSL300ES = ''gles300'',
                  lit_comment = ''hlsl40'',
                  lit_HLSL = None\<rparr>]\<rparr>]\<rparr>"
proof -
  have t: "TempDir example_env_plain = Inr ''/tmp/shader-convert1''"
    and g: "snd (LookPath example_env_plain ''glslcc'') = None"
    and s: "Glob example_env_plain ''shaders/*'' = Inr [''shaders/blit.frag'']"
    and p: "packageName example_env_plain = ''gpu''"
    by (simp_all add: example_env_plain_def example_env_def)
  have e: "generate_entry example_env_plain ''shaders/blit.frag'' =
      Inr \<lparr>se_name = ''blit_frag'', se_multiVariant = False,
              se_literals =
                [\<lparr>lit_Inputs = Some (Inputs example_once),
                  lit_Uniforms = Some (Uniforms example_once),
                  lit_Textures = Some (Textures example_once),
                  lit_GLSL100ES = ''#version 100'' @ [CHR 0x0A] @ ''gles100'',
                  lit_GLSL300ES = ''gles300'',
                  lit_comment = ''hlsl40'',
                  lit_HLSL = None\<rparr>]\<rparr>"
    by (simp add: generate_entry_variants [OF example_env_plain_variant example_env_plain_variant]
        sourcesLit_def ReplaceAll_dot_def Base_def Let_def)
      (simp add: example_once_def)
  show ?thesis
    unfolding generate_out_started [OF t g s]
    using e by (simp add: generate_entry_def p)
qed

text \<open>
  C10. When the GLSL ES 100 texts of the two variants of a shader file are equal, the
  file's entry is a single literal made of the first (uniform-colour) variant alone: its
  inputs, uniforms and textures where non-empty, its two GLSL texts, its HLSL text and its
  bytecode. Nothing of the second variant's record is in the entry.
\<close>

theorem generate_single_variant:
  assumes "generate_out env = Inr out"
    and "Glob env ''shaders/*'' = Inr shaders"
    and "i < length shaders"
    and "generate_variant env (shaders ! i) uniformColorArgs = Inr v0"
    and "generate_variant env (shaders ! i) texturedArgs = Inr v1"
    and "GLSL100ES (ShaderSources v0) = GLSL100ES (ShaderSources v1)"
  shows "ob_entries out ! i =
     \<lparr>se_name = ReplaceAll_dot (Base (shaders ! i)),
      se_multiVariant = False,
      se_literals =
        [\<lparr>lit_Inputs =
            (if Inputs (ShaderSources v0) = [] then None else Some (Inputs (ShaderSources v0))),
          lit_Uniforms =
            (if ur_Blocks (Uniforms (ShaderSources v0)) = [] then None
             else Some (Uniforms (ShaderSources v0))),
          lit_Textures =
            (if Textures (ShaderSources v0) = [] then None
             else Some (Textures (ShaderSources v0))),
          lit_GLSL100ES = GLSL100ES (ShaderSources v0),
          lit_GLSL300ES = GLSL300ES (ShaderSources v0),
          lit_comment = hlslSrc v0,
          lit_HLSL = HLSL (ShaderSources v0)\<rparr>]\<rparr>"
proof -
  from assms(1) obtain tmp shaders' where "Glob env ''shaders/*'' = Inr shaders'"
    and "list_all2 (\<lambda>shader entry. generate_entry env shader = Inr entry) shaders' (ob_entries out)"
    by (rule generate_out_Inr)
  with assms(2)
  have "list_all2 (\<lambda>shader entry. generate_entry env shader = Inr entry) shaders (ob_entries out)"
    by simp
  from this assms(3) have "generate_entry env (shaders ! i) = Inr (ob_entries out ! i)"
    by (rule list_all2_nthD)
  with generate_entry_variants [OF assms(4) assms(5)] assms(6)
  show ?thesis by (simp add: sourcesLit_def Let_def)
qed

theorem generate_single_variant_witness:
  "generate_out example_env_plain = Inr (projr (generate_out example_env_plain)) \<and>
   Glob example_env_plain ''shaders/*'' = Inr [''shaders/blit.frag''] \<and>
   (0::nat) < length [''shaders/blit.frag''] \<and>
   generate_variant example_env_plain ''shaders/blit.frag'' uniformColorArgs =
     generate_variant example_env_plain ''shaders/blit.frag'' texturedArgs \<and>
   \<not> isl (generate_variant example_env_plain ''shaders/blit.frag'' uniformColorArgs) \<and>
   map lit_GLSL300ES (se_literals (ob_entries (projr (generate_out example_env_plain)) ! 0)) =
     [''gles300'']"
proof -
  let ?v = "\<lparr>ShaderSources =
            example_once\<lparr>GLSL100ES := ''#version 100'' @ [CHR 0x0A] @ ''gles100'',
                         GLSL300ES := ''gles300'', HLSL := None\<rparr>,
          hlslSrc = ''hlsl40''\<rparr>"
  have o: "generate_out example_env_plain = Inr (projr (generate_out example_env_plain))"
    by (simp add: example_env_plain_out)
  have s: "Glob example_env_plain ''shaders/*'' = Inr [''shaders/blit.frag'']"
    by (simp add: example_env_plain_def example_env_def)
  have i: "(0::nat) < length [''shaders/blit.frag'']" by simp
  have v0: "generate_variant example_env_plain ([''shaders/blit.frag''] ! 0) uniformColorArgs = Inr ?v"
    and v1: "generate_variant example_env_plain ([''shaders/blit.frag''] ! 0) texturedArgs = Inr ?v"
    by (simp_all add: example_env_plain_variant)
  from generate_single_variant [OF o s i v0 v1]
  have "map lit_GLSL300ES (se_literals (ob_entries (projr (generate_out example_env_plain)) ! 0)) =
     [''gles300'']"
    by simp
  with o s i show ?thesis by (simp add: example_env_plain_variant)
qed

section \<open>generate without the bytecode compiler\<close>












section \<open>generate stops at the first error\<close>

lemma generate_variant_fails:
  assumes "TempDir env = Inr tmp" and "snd (LookPath env ''glslcc'') = None"
    and "Glob env ''shaders/*'' = Inr shaders"
    and "i < length shaders"
    and "\<forall>j<i. \<not> isl (generate_entry env (shaders ! j))"
    and "k < length args"
    and "\<forall>j<k. \<not> isl (generate_variant env (shaders ! i) (args ! j))"
    and "generate_variant env (shaders ! i) (args ! k) = Inl e"
  shows "generate env = (Some e, [])"
proof -
  from assms(6) have "k = 0 \<or> k = 1" by (auto simp: args_eq)
  then have "generate_entry env (shaders ! i) = Inl e"
  proof
    assume "k = 0"
    with assms(8) show ?thesis
      unfolding generate_entry_def generate_variant_def
      by (intro shaderBody_first_fails) (simp add: args_eq)
  next
    assume k: "k = 1"
    with assms(7) have "\<not> isl (generate_variant env (shaders ! i) uniformColorArgs)"
      by (simp add: args_eq)
    then obtain v0 where "generate_variant env (shaders ! i) uniformColorArgs = Inr v0"
      by (cases "generate_variant env (shaders ! i) uniformColorArgs") auto
    with assms(8) k show ?thesis
      unfolding generate_entry_def generate_variant_def
      by (intro shaderBody_second_fails) (simp_all add: args_eq)
  qed
  with assms(4,5)
  have "shadersLoop env (projr (TempDir env)) (fst (LookPath env ''glslcc''))
          (fst (LookPath env ''fxc'')) (snd (LookPath env ''fxc'') = None) shaders = Inl e"
    unfolding generate_entry_def by (intro shadersLoop_fails) auto
  then have "generate_out env = Inl e"
    by (simp add: generate_out_started [OF assms(1-3)])
  then show ?thesis by (simp add: generate_def)
qed

lemma generate_written:
  assumes "snd (generate env) \<noteq> []"
  shows "\<exists>out gosrc. generate_out env = Inr out \<and> Source env out = Inr gosrc \<and>
           snd (generate env) = [(''shaders.go'', gosrc)]"
  using assms by (auto simp: generate_def split: sum.splits)

text \<open>
  C8. Let the variant \<open>k\<close> of the shader file \<open>i\<close> be the first one that fails: the files
  before \<open>i\<close> and the variants of \<open>i\<close> before \<open>k\<close> are converted without error. Whichever
  step fails (the first conversion, which also expands the template; the parse of its
  reflection data, with its unsupported types; the second or the third conversion; the
  choice of the HLSL profile from the file's extension; the bytecode compiler),
  \<^verbatim>\<open>generate\<close> returns that step's error and has not called \<^verbatim>\<open>ioutil.WriteFile\<close>. The file
  is written only after the whole buffer was built and formatted.
\<close>

theorem generate_aborts:
  assumes "TempDir env = Inr tmp" and "snd (LookPath env ''glslcc'') = None"
    and "Glob env ''shaders/*'' = Inr shaders"
    and "i < length shaders"
    and "\<forall>j<i. \<not> isl (generate_entry env (shaders ! j))"
    and "k < length args"
    and "\<forall>j<k. \<not> isl (generate_variant env (shaders ! i) (args ! j))"
  shows "(generate_convert env (shaders ! i) ''gles'' ''100'' (args ! k) = Inl e \<longrightarrow>
            generate env = (Some e, [])) \<and>
         (generate_convert env (shaders ! i) ''gles'' ''100'' (args ! k) = Inr (es2src, r) \<longrightarrow>
          parseReflection (Unmarshal env) (Slice env) r ShaderSources_zero = Inl e \<longrightarrow>
            generate env = (Some e, [])) \<and>
         (generate_convert env (shaders ! i) ''gles'' ''100'' (args ! k) = Inr (es2src, r) \<longrightarrow>
          parseReflection (Unmarshal env) (Slice env) r ShaderSources_zero = Inr info \<longrightarrow>
          generate_convert env (shaders ! i) ''gles'' ''300'' (args ! k) = Inl e \<longrightarrow>
            generate env = (Some e, [])) \<and>
         (generate_convert env (shaders ! i) ''gles'' ''100'' (args ! k) = Inr (es2src, r) \<longrightarrow>
          parseReflection (Unmarshal env) (Slice env) r ShaderSources_zero = Inr info \<longrightarrow>
          generate_convert env (shaders ! i) ''gles'' ''300'' (args ! k) = Inr (es3src, refl3) \<longrightarrow>
          generate_convert env (shaders ! i) ''hlsl'' ''40'' (args ! k) = Inl e \<longrightarrow>
            generate env = (Some e, [])) \<and>
         (generate_convert env (shaders ! i) ''gles'' ''100'' (args ! k) = Inr (es2src, r) \<longrightarrow>
          parseReflection (Unmarshal env) (Slice env) r ShaderSources_zero = Inr info \<longrightarrow>
          generate_convert env (shaders ! i) ''gles'' ''300'' (args ! k) = Inr (es3src, refl3) \<longrightarrow>
          generate_convert env (shaders ! i) ''hlsl'' ''40'' (args ! k) = Inr (hlsl, refl4) \<longrightarrow>
          Ext (shaders ! i) \<noteq> ''.frag'' \<longrightarrow> Ext (shaders ! i) \<noteq> ''.vert'' \<longrightarrow>
            generate env =
              (Some (GoError (''unrecognized shader type '' @ shaders ! i)), [])) \<and>
         (generate_convert env (shaders ! i) ''gles'' ''100'' (args ! k) = Inr (es2src, r) \<longrightarrow>
          parseReflection (Unmarshal env) (Slice env) r ShaderSources_zero = Inr info \<longrightarrow>
          generate_convert env (shaders ! i) ''gles'' ''300'' (args ! k) = Inr (es3src, refl3) \<longrightarrow>
          generate_convert env (shaders ! i) ''hlsl'' ''40'' (args ! k) = Inr (hlsl, refl4) \<longrightarrow>
          hlslProfOf (shaders ! i) = Inr hlslProf \<longrightarrow>
          snd (LookPath env ''fxc'') = None \<longrightarrow>
          compileHLSL env tmp (fst (LookPath env ''fxc'')) hlsl ''main'' (hlslProf @ ''_4_0'') =
            Inl e \<longrightarrow>
            generate env = (Some e, [])) \<and>
         (snd (generate env) \<noteq> [] \<longrightarrow>
            (\<exists>out gosrc. generate_out env = Inr out \<and> Source env out = Inr gosrc \<and>
               snd (generate env) = [(''shaders.go'', gosrc)]))"
proof -
  note abort = generate_variant_fails [OF assms]
  have tmp: "projr (TempDir env) = tmp" using assms(1) by simp
  show ?thesis
  proof (intro conjI impI)
    assume "generate_convert env (shaders ! i) ''gles'' ''100'' (args ! k) = Inl e"
    then show "generate env = (Some e, [])"
      by (intro abort) (simp add: generate_variant_def variantBody_def generate_convert_def)
  next
    assume "generate_convert env (shaders ! i) ''gles'' ''100'' (args ! k) = Inr (es2src, r)"
      and "parseReflection (Unmarshal env) (Slice env) r ShaderSources_zero = Inl e"
    then show "generate env = (Some e, [])"
      by (intro abort)
        (simp add: generate_variant_def variantBody_def generate_convert_def variant_zero_def)
  next
    assume "generate_convert env (shaders ! i) ''gles'' ''100'' (args ! k) = Inr (es2src, r)"
      and "parseReflection (Unmarshal env) (Slice env) r ShaderSources_zero = Inr info"
      and "generate_convert env (shaders ! i) ''gles'' ''300'' (args ! k) = Inl e"
    then show "generate env = (Some e, [])"
      by (intro abort)
        (simp add: generate_variant_def variantBody_def generate_convert_def variant_zero_def)
  next
    assume "generate_convert env (shaders ! i) ''gles'' ''100'' (args ! k) = Inr (es2src, r)"
      and "parseReflection (Unmarshal env) (Slice env) r ShaderSources_zero = Inr info"
      and "generate_convert env (shaders ! i) ''gles'' ''300'' (args ! k) = Inr (es3src, refl3)"
      and "generate_convert env (shaders ! i) ''hlsl'' ''40'' (args ! k) = Inl e"
    then show "generate env = (Some e, [])"
      by (intro abort)
        (simp add: generate_variant_def variantBody_def generate_convert_def variant_zero_def)
  next
    assume "generate_convert env (shaders ! i) ''gles'' ''100'' (args ! k) = Inr (es2src, r)"
      and "parseReflection (Unmarshal env) (Slice env) r ShaderSources_zero = Inr info"
      and "generate_convert env (shaders ! i) ''gles'' ''300'' (args ! k) = Inr (es3src, refl3)"
      and "generate_convert env (shaders ! i) ''hlsl'' ''40'' (args ! k) = Inr (hlsl, refl4)"
      and "Ext (shaders ! i) \<noteq> ''.frag''" and "Ext (shaders ! i) \<noteq> ''.vert''"
    then have "generate_variant env (shaders ! i) (args ! k) =
        Inl (GoError (''unrecognized shader type '' @ shaders ! i))"
      by (simp add: generate_variant_def variantBody_def generate_convert_def variant_zero_def
          hlslProfOf_def)
    from generate_variant_fails [OF assms this]
    show "generate env = (Some (GoError (''unrecognized shader type '' @ shaders ! i)), [])" .
  next
    assume "generate_convert env (shaders ! i) ''gles'' ''100'' (args ! k) = Inr (es2src, r)"
      and "parseReflection (Unmarshal env) (Slice env) r ShaderSources_zero = Inr info"
      and "generate_convert env (shaders ! i) ''gles'' ''300'' (args ! k) = Inr (es3src, refl3)"
      and "generate_convert env (shaders ! i) ''hlsl'' ''40'' (args ! k) = Inr (hlsl, refl4)"
      and "hlslProfOf (shaders ! i) = Inr hlslProf"
      and "snd (LookPath env ''fxc'') = None"
      and "compileHLSL env tmp (fst (LookPath env ''fxc'')) hlsl ''main'' (hlslProf @ ''_4_0'') =
            Inl e"
    then show "generate env = (Some e, [])"
      by (intro abort)
        (simp add: generate_variant_def variantBody_def generate_convert_def variant_zero_def tmp)
  next
    assume "snd (generate env) \<noteq> []"
    then show "\<exists>out gosrc. generate_out env = Inr out \<and> Source env out = Inr gosrc \<and>
               snd (generate env) = [(''shaders.go'', gosrc)]"
      by (rule generate_written)
  qed
qed

theorem generate_aborts_witness:
  "TempDir (example_env 2) = Inr ''/tmp/shader-convert1'' \<and>
   snd (LookPath (example_env 2) ''glslcc'') = None \<and>
   Glob (example_env 2) ''shaders/*'' = Inr [''shaders/blit.frag''] \<and>
   (0::nat) < length [''shaders/blit.frag''] \<and> (0::nat) < length args \<and>
   generate_convert (example_env 2) ([''shaders/blit.frag''] ! 0) ''gles'' ''100'' (args ! 0) =
     Inr (''gles100 _color'', [2]) \<and>
   parseReflection (Unmarshal (example_env 2)) (Slice (example_env 2)) [2] ShaderSources_zero =
     Inl (GoError ''parseReflection: unsupported input data type: double'') \<and>
   generate (example_env 2) =
     (Some (GoError ''parseReflection: unsupported input data type: double''), [])"
proof -
  have t: "TempDir (example_env 2) = Inr ''/tmp/shader-convert1''"
    and g: "snd (LookPath (example_env 2) ''glslcc'') = None"
    and s: "Glob (example_env 2) ''shaders/*'' = Inr [''shaders/blit.frag'']"
    by (simp_all add: example_env_def)
  have i: "(0::nat) < length [''shaders/blit.frag'']" and k: "(0::nat) < length args"
    by (simp_all add: args_def)
  have before_i: "\<forall>j<0::nat. \<not> isl (generate_entry (example_env 2) ([''shaders/blit.frag''] ! j))"
    and before_k: "\<forall>j<0::nat. \<not> isl (generate_variant (example_env 2)
                     ([''shaders/blit.frag''] ! 0) (args ! j))"
    by simp_all
  have c: "generate_convert (example_env 2) ([''shaders/blit.frag''] ! 0) ''gles'' ''100''
      (args ! 0) = Inr (''gles100 _color'', [2])"
    by (simp add: generate_convert_def example_env_def args_def)
  have p: "parseReflection (Unmarshal (example_env 2)) (Slice (example_env 2)) [2]
      ShaderSources_zero = Inl (GoError ''parseReflection: unsupported input data type: double'')"
    by (simp add: example_env_def parseReflection_def example_unmarshal_def
        example_reflect_double_def parseDataType_def)
  from generate_aborts [where es2src = "''gles100 _color''" and r = "[2]"
        and e = "GoError ''parseReflection: unsupported input data type: double''",
      OF t g s i before_i k before_k] c p
  have "generate (example_env 2) =
     (Some (GoError ''parseReflection: unsupported input data type: double''), [])"
    by blast
  with t g s i k c p show ?thesis by blast
qed

end
